theory Spec2Isabelle
  imports Complex_Main "HOL-Library.Multiset" "HOL-Library.AList" "HOL-Library.Monad_Syntax"
begin

section \<open>Python values\<close>

text \<open>
  Text is ASCII text, one \<^typ>\<open>char\<close> per character.  A Python \<open>float\<close> is a real
  number or one of the three non-finite values; rounding to double precision and
  overflow to infinity are outside the model, so a finite float is the exact real.
\<close>

datatype pyfloat = Fin real | PInf | NInf | NaN

text \<open>Truthiness of a float (\<open>if x:\<close>): only zero is false.\<close>

fun truthy :: "pyfloat \<Rightarrow> bool" where
  "truthy (Fin x) = (x \<noteq> 0)"
| "truthy PInf = True"
| "truthy NInf = True"
| "truthy NaN = True"

text \<open>\<open>number * multiplier\<close> for a positive integer multiplier.\<close>

fun fmul :: "pyfloat \<Rightarrow> nat \<Rightarrow> pyfloat" where
  "fmul (Fin x) m = Fin (x * real m)"
| "fmul PInf m = PInf"
| "fmul NInf m = NInf"
| "fmul NaN m = NaN"

definition is_digit :: "char \<Rightarrow> bool" where
  "is_digit c = (c \<in> set ''0123456789'')"

text \<open>The ASCII characters for which \<open>str.isspace\<close> holds.\<close>

definition is_space :: "char \<Rightarrow> bool" where
  "is_space c = (c \<in> set [CHR 0x09, CHR 0x0A, CHR 0x0B, CHR 0x0C, CHR 0x0D,
                             CHR 0x1C, CHR 0x1D, CHR 0x1E, CHR 0x1F, CHR '' ''])"

definition upper_char :: "char \<Rightarrow> char" where
  "upper_char c = (case map_of (zip ''abcdefghijklmnopqrstuvwxyz'' ''ABCDEFGHIJKLMNOPQRSTUVWXYZ'') c of
                     Some u \<Rightarrow> u | None \<Rightarrow> c)"

definition lower_char :: "char \<Rightarrow> char" where
  "lower_char c = (case map_of (zip ''ABCDEFGHIJKLMNOPQRSTUVWXYZ'' ''abcdefghijklmnopqrstuvwxyz'') c of
                     Some l \<Rightarrow> l | None \<Rightarrow> c)"

definition upper :: "string \<Rightarrow> string" where
  "upper s = map upper_char s"

definition lower :: "string \<Rightarrow> string" where
  "lower s = map lower_char s"

text \<open>\<open>str.strip()\<close>: leading and trailing whitespace removed.\<close>

definition strip :: "string \<Rightarrow> string" where
  "strip s = rev (dropWhile is_space (rev (dropWhile is_space s)))"

text \<open>\<open>s.endswith(suffix)\<close> for a one-character suffix.\<close>

definition endswith :: "string \<Rightarrow> char \<Rightarrow> bool" where
  "endswith s c = (s \<noteq> [] \<and> last s = c)"

section \<open>The built-in \<open>float(str)\<close>\<close>

text \<open>
  The grammar of the Python language reference: optional sign, then \<open>inf\<close>,
  \<open>infinity\<close> or \<open>nan\<close> in any case, or a decimal number
  \<open>[digitpart] "." digitpart | digitpart ["."]\<close> with an optional exponent, where a
  digitpart is digits with single underscores between them.  Whitespace around the
  literal is ignored.  \<open>None\<close> is the \<open>ValueError\<close>.
\<close>

text \<open>The digits (and underscores before digits) that continue a digitpart.\<close>

fun digit_run :: "string \<Rightarrow> string \<times> string" where
  "digit_run [] = ([], [])"
| "digit_run [c] = (if is_digit c then ([c], []) else ([], [c]))"
| "digit_run (c # d # cs) =
     (if is_digit c then (let (ds, r) = digit_run (d # cs) in (c # ds, r))
      else if c = CHR ''_'' \<and> is_digit d then (let (ds, r) = digit_run cs in (d # ds, r))
      else ([], c # d # cs))"

definition digitpart :: "string \<Rightarrow> (string \<times> string) option" where
  "digitpart s = (case s of
       [] \<Rightarrow> None
     | c # cs \<Rightarrow> if is_digit c then (let (ds, r) = digit_run cs in Some (c # ds, r)) else None)"

text \<open>Integer part, fraction part and the rest of the text.\<close>

definition number :: "string \<Rightarrow> (string \<times> string \<times> string) option" where
  "number s = (case digitpart s of
       Some (ip, r) \<Rightarrow>
         (case r of
            [] \<Rightarrow> Some (ip, [], [])
          | c # r2 \<Rightarrow>
              if c = CHR ''.'' then
                (case digitpart r2 of Some (fp, r3) \<Rightarrow> Some (ip, fp, r3) | None \<Rightarrow> Some (ip, [], r2))
              else Some (ip, [], r))
     | None \<Rightarrow>
         (case s of
            [] \<Rightarrow> None
          | c # r2 \<Rightarrow>
              if c = CHR ''.'' then
                (case digitpart r2 of Some (fp, r3) \<Rightarrow> Some ([], fp, r3) | None \<Rightarrow> None)
              else None))"

text \<open>An optional sign: \<open>True\<close> for minus.\<close>

definition sign :: "string \<Rightarrow> bool \<times> string" where
  "sign s = (case s of
       [] \<Rightarrow> (False, [])
     | c # cs \<Rightarrow> if c = CHR ''-'' then (True, cs) else if c = CHR ''+'' then (False, cs) else (False, s))"

text \<open>The exponent and the rest: no exponent is exponent 0.\<close>

definition digits_val :: "string \<Rightarrow> nat" where
  "digits_val ds = foldl (\<lambda>a c. 10 * a + (of_char c - 48)) 0 ds"

definition exponent :: "string \<Rightarrow> (int \<times> string) option" where
  "exponent s = (case s of
       [] \<Rightarrow> Some (0, [])
     | c # cs \<Rightarrow>
         if c = CHR ''e'' \<or> c = CHR ''E'' then
           (let (neg, r) = sign cs in
            case digitpart r of
              Some (ds, r2) \<Rightarrow> Some ((if neg then - int (digits_val ds) else int (digits_val ds)), r2)
            | None \<Rightarrow> None)
         else Some (0, s))"

definition scale10 :: "real \<Rightarrow> int \<Rightarrow> real" where
  "scale10 x e = (if 0 \<le> e then x * 10 ^ nat e else x / 10 ^ nat (- e))"

definition floatnumber :: "string \<Rightarrow> real option" where
  "floatnumber s = (case number s of
       None \<Rightarrow> None
     | Some (ip, fp, r) \<Rightarrow>
         (case exponent r of
            None \<Rightarrow> None
          | Some (e, r2) \<Rightarrow>
              if r2 = [] then Some (scale10 (real (digits_val (ip @ fp))) (e - int (length fp)))
              else None))"

definition py_float :: "string \<Rightarrow> pyfloat option" where
  "py_float s =
     (let (neg, r) = sign (strip s) in
      if lower r = ''inf'' \<or> lower r = ''infinity'' then Some (if neg then NInf else PInf)
      else if lower r = ''nan'' then Some NaN
      else (case floatnumber r of
              None \<Rightarrow> None
            | Some x \<Rightarrow> Some (Fin (if neg then - x else x))))"

section \<open>Numeric parser: \<open>parse_financial_value\<close>\<close>

definition multipliers :: "(char \<times> nat) list" where
  "multipliers = [(CHR ''K'', 1000), (CHR ''M'', 1000000), (CHR ''B'', 1000000000)]"

text \<open>\<open>value_str.replace('$', '').replace(',', '').strip()\<close>\<close>

definition clean :: "string \<Rightarrow> string" where
  "clean s = strip (filter (\<lambda>c. c \<noteq> CHR '','') (filter (\<lambda>c. c \<noteq> CHR ''$'') s))"

text \<open>
  The loop over the suffixes: \<open>Some\<close> is the \<open>return\<close> inside the loop, \<open>None\<close>
  is falling out of it.  A \<open>ValueError\<close> of \<open>float\<close> is caught and the loop continues.
\<close>

fun suffix_loop :: "(char \<times> nat) list \<Rightarrow> string \<Rightarrow> pyfloat option" where
  "suffix_loop [] v = None"
| "suffix_loop ((suffix, multiplier) # ms) v =
     (if endswith (upper v) suffix then
        (case py_float (butlast v) of
           Some n \<Rightarrow> Some (fmul n multiplier)
         | None \<Rightarrow> suffix_loop ms v)
      else suffix_loop ms v)"

definition parse_financial_value :: "string \<Rightarrow> pyfloat option" where
  "parse_financial_value value_str =
     (if value_str = [] then None
      else (let v = clean value_str in
            case suffix_loop multipliers v of
              Some r \<Rightarrow> Some r
            | None \<Rightarrow> py_float v))"

text \<open>
  The parser in the words of the specification: strip, then a K/M/B suffix scales the
  numeric prefix, otherwise the text is a plain float, and every failure is \<open>None\<close>.
\<close>

definition suffix_scale :: "string \<Rightarrow> nat option" where
  "suffix_scale v =
     (if v = [] then None
      else if upper_char (last v) = CHR ''K'' then Some 1000
      else if upper_char (last v) = CHR ''M'' then Some 1000000
      else if upper_char (last v) = CHR ''B'' then Some 1000000000
      else None)"

definition parse_value_spec :: "string \<Rightarrow> pyfloat option" where
  "parse_value_spec s =
     (if s = [] then None
      else (let v = clean s in
            case suffix_scale v of
              Some m \<Rightarrow> (case py_float (butlast v) of Some n \<Rightarrow> Some (fmul n m) | None \<Rightarrow> None)
            | None \<Rightarrow> py_float v))"

text \<open>The characters that can occur in a decimal float literal.\<close>

definition is_float_char :: "char \<Rightarrow> bool" where
  "is_float_char c = (c \<in> set ''0123456789._eE+-'')"

section \<open>Regular expressions of the extractor\<close>

text \<open>
  The patterns of \<open>_initialize_patterns\<close> use literal characters, \<open>.\<close>, \<open>\d\<close>,
  \<open>\s\<close>, bracket sets, the greedy quantifiers \<open>?\<close>, \<open>*\<close>, \<open>+\<close>, the lazy
  \<open>*?\<close> and one capturing group.  A pattern is modelled as the items before the
  group, the items of the group and the items after it; an item is a set of atoms
  with a quantifier.  Matching is that of a backtracking engine under
  \<open>re.IGNORECASE\<close>: the alternatives of an item are tried in the order of its
  quantifier, and the first complete match wins.
\<close>

datatype atom = Ch char | Dot | Dig | Spc

datatype quant = One | Opt | Star | Plus | Lazy

type_synonym item = "atom list \<times> quant"

record pattern =
  pre :: "item list"
  grp :: "item list"
  post :: "item list"

fun atom_ok :: "atom \<Rightarrow> char \<Rightarrow> bool" where
  "atom_ok (Ch x) c = (lower_char c = lower_char x)"
| "atom_ok Dot c = (c \<noteq> CHR 0x0A)"
| "atom_ok Dig c = is_digit c"
| "atom_ok Spc c = is_space c"

definition accepts :: "atom list \<Rightarrow> char \<Rightarrow> bool" where
  "accepts as c = list_ex (\<lambda>a. atom_ok a c) as"

text \<open>
  The backtracking matcher: \<open>rx_match is s k\<close> matches the items \<open>is\<close> at the head
  of \<open>s\<close> and hands the remaining text to the continuation \<open>k\<close>; when the
  continuation fails, the next alternative of the last choice is tried.  A greedy
  quantifier tries the longer alternative first, the lazy one the shorter.
\<close>

function rx_match :: "item list \<Rightarrow> string \<Rightarrow> (string \<Rightarrow> 'a option) \<Rightarrow> 'a option" where
  "rx_match [] s k = k s"
| "rx_match ((as, One) # is) s k =
     (case s of
        [] \<Rightarrow> None
      | c # r \<Rightarrow> if accepts as c then rx_match is r k else None)"
| "rx_match ((as, Opt) # is) s k =
     (case s of
        [] \<Rightarrow> rx_match is s k
      | c # r \<Rightarrow>
          if accepts as c then
            (case rx_match is r k of Some x \<Rightarrow> Some x | None \<Rightarrow> rx_match is s k)
          else rx_match is s k)"
| "rx_match ((as, Star) # is) s k =
     (case s of
        [] \<Rightarrow> rx_match is s k
      | c # r \<Rightarrow>
          if accepts as c then
            (case rx_match ((as, Star) # is) r k of Some x \<Rightarrow> Some x | None \<Rightarrow> rx_match is s k)
          else rx_match is s k)"
| "rx_match ((as, Plus) # is) s k =
     (case s of
        [] \<Rightarrow> None
      | c # r \<Rightarrow> if accepts as c then rx_match ((as, Star) # is) r k else None)"
| "rx_match ((as, Lazy) # is) s k =
     (case rx_match is s k of
        Some x \<Rightarrow> Some x
      | None \<Rightarrow>
          (case s of
             [] \<Rightarrow> None
           | c # r \<Rightarrow> if accepts as c then rx_match ((as, Lazy) # is) r k else None))"
  by pat_completeness auto
termination
  by (relation "measures [\<lambda>(is, s, k). length s, \<lambda>(is, s, k). length is]") auto

text \<open>
  A match starting at the head of the text: the text of the group and the number of
  characters the whole match consumes.
\<close>

definition match_at :: "pattern \<Rightarrow> string \<Rightarrow> (string \<times> nat) option" where
  "match_at p s =
     rx_match (pre p) s (\<lambda>r1.
       rx_match (grp p) r1 (\<lambda>r2.
         rx_match (post p) r2 (\<lambda>r3.
           Some (take (length r1 - length r2) r1, length s - length r3))))"

text \<open>
  \<open>re.findall\<close> for a pattern with one group: the group texts of the successive
  non-overlapping matches, scanning from the left.  The counter is the number of
  characters still covered by the last match.
\<close>

fun scan :: "pattern \<Rightarrow> nat \<Rightarrow> string \<Rightarrow> string list" where
  "scan p k [] = (if k = 0 then (case match_at p [] of None \<Rightarrow> [] | Some (g, n) \<Rightarrow> [g]) else [])"
| "scan p (Suc k) (c # cs) = scan p k cs"
| "scan p 0 (c # cs) =
     (case match_at p (c # cs) of
        None \<Rightarrow> scan p 0 cs
      | Some (g, n) \<Rightarrow> g # scan p (n - 1) cs)"

definition findall :: "pattern \<Rightarrow> string \<Rightarrow> string list" where
  "findall p text = scan p 0 text"

text \<open>The pieces the patterns are built from.\<close>

definition lit :: "string \<Rightarrow> item list" where
  "lit s = map (\<lambda>c. ([Ch c], One)) s"

text \<open>\<open>.*?\<close>\<close>

definition lazy_any :: "item list" where
  "lazy_any = [([Dot], Lazy)]"

text \<open>\<open>\$?[\d,]+\.?\d*[KMB]?\<close>\<close>

definition money :: "item list" where
  "money = [([Ch (CHR ''$'')], Opt), ([Dig, Ch (CHR '','')], Plus), ([Ch (CHR ''.'')], Opt),
            ([Dig], Star), ([Ch (CHR ''K''), Ch (CHR ''M''), Ch (CHR ''B'')], Opt)]"

text \<open>\<open>word.*?(money)\<close> and \<open>(money)\s*word\<close>\<close>

definition after_word :: "item list \<Rightarrow> pattern" where
  "after_word w = \<lparr>pre = w @ lazy_any, grp = money, post = []\<rparr>"

definition before_word :: "string \<Rightarrow> pattern" where
  "before_word w = \<lparr>pre = [], grp = money, post = ([Spc], Star) # lit w\<rparr>"

text \<open>\<open>(\d+[,\d]*)\s*word\<close>, \<open>(\d+)\s*word\<close> and \<open>(\d+\.?\d*)%\s*word\<close>\<close>

definition count_before :: "item list \<Rightarrow> pattern" where
  "count_before w = \<lparr>pre = [], grp = [([Dig], Plus), ([Ch (CHR '',''), Dig], Star)],
                       post = ([Spc], Star) # w\<rparr>"

definition int_before :: "item list \<Rightarrow> pattern" where
  "int_before w = \<lparr>pre = [], grp = [([Dig], Plus)], post = ([Spc], Star) # w\<rparr>"

definition percent :: "item list" where
  "percent = [([Dig], Plus), ([Ch (CHR ''.'')], Opt), ([Dig], Star)]"

definition percent_before :: "string \<Rightarrow> pattern" where
  "percent_before w = \<lparr>pre = [], grp = percent, post = lit ''%'' @ ([Spc], Star) # lit w\<rparr>"

definition ws1 :: "item list" where
  "ws1 = [([Spc], Plus)]"

text \<open>The entries of the table of \<open>_initialize_patterns\<close>.\<close>

definition revenue_patterns :: "pattern list" where
  "revenue_patterns =
     [after_word (lit ''revenue''), after_word (lit ''sales''), after_word (lit ''income''),
      before_word ''revenue'', after_word (lit ''annual'' @ ws1 @ lit ''revenue'')]"

definition funding_patterns :: "pattern list" where
  "funding_patterns =
     [after_word (lit ''raising''), after_word (lit ''funding''), after_word (lit ''investment''),
      before_word ''raise'', after_word (lit ''seeking'')]"

definition valuation_patterns :: "pattern list" where
  "valuation_patterns =
     [after_word (lit ''valuation''), after_word (lit ''valued'' @ ws1 @ lit ''at''),
      after_word (lit ''worth''), before_word ''valuation'']"

definition market_size_patterns :: "pattern list" where
  "market_size_patterns =
     [after_word (lit ''market'' @ ws1 @ lit ''size''), after_word (lit ''TAM''),
      after_word (lit ''SAM''), after_word (lit ''SOM''),
      after_word (lit ''total'' @ ws1 @ lit ''addressable'' @ ws1 @ lit ''market'')]"

definition customers_patterns :: "pattern list" where
  "customers_patterns =
     [count_before (lit ''customers''), count_before (lit ''users''), count_before (lit ''clients''),
      \<lparr>pre = lit ''user'' @ ws1 @ lit ''base'' @ lazy_any,
       grp = [([Dig], Plus), ([Ch (CHR '',''), Dig], Star)], post = []\<rparr>]"

definition team_size_patterns :: "pattern list" where
  "team_size_patterns =
     [\<lparr>pre = lit ''team'' @ lazy_any, grp = [([Dig], Plus)], post = ([Spc], Star) # lit ''people''\<rparr>,
      int_before (lit ''employees''), int_before (lit ''team'' @ ws1 @ lit ''members''),
      \<lparr>pre = lit ''founded'' @ ws1 @ lit ''by'' @ lazy_any, grp = [([Dig], Plus)], post = []\<rparr>]"

definition growth_rate_patterns :: "pattern list" where
  "growth_rate_patterns =
     [percent_before ''growth'',
      \<lparr>pre = lit ''growing'' @ lazy_any, grp = percent, post = lit ''%''\<rparr>,
      percent_before ''increase'',
      \<lparr>pre = lit ''growth'' @ ws1 @ lit ''rate'' @ lazy_any, grp = percent, post = lit ''%''\<rparr>]"

text \<open>The table, in the order of the dictionary.\<close>

definition financial_patterns :: "(string \<times> pattern list) list" where
  "financial_patterns =
     [(''revenue'', revenue_patterns), (''funding'', funding_patterns),
      (''valuation'', valuation_patterns), (''market_size'', market_size_patterns),
      (''customers'', customers_patterns), (''team_size'', team_size_patterns),
      (''growth_rate'', growth_rate_patterns)]"

section \<open>Regex extraction: \<open>extract_financial_metrics\<close>\<close>

text \<open>
  \<open>np.median\<close> sorts the values and takes the middle one, or the mean of the two
  middle ones; any NaN makes the result NaN.  The order of floats puts the infinities
  at the ends (and NaN last, as numpy sorts it).
\<close>

fun rank :: "pyfloat \<Rightarrow> nat" where
  "rank NInf = 0"
| "rank (Fin x) = 1"
| "rank PInf = 2"
| "rank NaN = 3"

fun fval :: "pyfloat \<Rightarrow> real" where
  "fval (Fin x) = x"
| "fval PInf = 0"
| "fval NInf = 0"
| "fval NaN = 0"

instantiation pyfloat :: linorder
begin

definition less_eq_pyfloat :: "pyfloat \<Rightarrow> pyfloat \<Rightarrow> bool" where
  "less_eq_pyfloat x y = (rank x < rank y \<or> (rank x = rank y \<and> fval x \<le> fval y))"

definition less_pyfloat :: "pyfloat \<Rightarrow> pyfloat \<Rightarrow> bool" where
  "less_pyfloat x y = (rank x < rank y \<or> (rank x = rank y \<and> fval x < fval y))"

instance
proof
  fix x y z :: pyfloat
  show "(x < y) = (x \<le> y \<and> \<not> y \<le> x)"
    by (auto simp: less_eq_pyfloat_def less_pyfloat_def)
  show "x \<le> x"
    by (simp add: less_eq_pyfloat_def)
  show "x \<le> y \<Longrightarrow> y \<le> z \<Longrightarrow> x \<le> z"
    by (auto simp: less_eq_pyfloat_def)
  show "x \<le> y \<Longrightarrow> y \<le> x \<Longrightarrow> x = y"
    by (cases x; cases y) (auto simp: less_eq_pyfloat_def)
  show "x \<le> y \<or> y \<le> x"
    by (auto simp: less_eq_pyfloat_def)
qed

end

fun fadd :: "pyfloat \<Rightarrow> pyfloat \<Rightarrow> pyfloat" where
  "fadd (Fin x) (Fin y) = Fin (x + y)"
| "fadd NaN y = NaN"
| "fadd x NaN = NaN"
| "fadd PInf NInf = NaN"
| "fadd NInf PInf = NaN"
| "fadd PInf y = PInf"
| "fadd x PInf = PInf"
| "fadd NInf y = NInf"
| "fadd x NInf = NInf"

fun fhalf :: "pyfloat \<Rightarrow> pyfloat" where
  "fhalf (Fin x) = Fin (x / 2)"
| "fhalf x = x"

definition np_median :: "pyfloat list \<Rightarrow> pyfloat" where
  "np_median vs =
     (if vs = [] \<or> NaN \<in> set vs then NaN
      else (let s = sort vs; n = length s in
            if odd n then s ! (n div 2)
            else fhalf (fadd (s ! (n div 2 - 1)) (s ! (n div 2)))))"

text \<open>A dictionary with string keys, in insertion order.\<close>

type_synonym 'v dict = "(string \<times> 'v) list"

text \<open>
  The three nested loops.  \<open>if parsed_value:\<close> is false for \<open>None\<close> and for the
  float zero, so neither is appended.
\<close>

fun match_loop :: "string list \<Rightarrow> pyfloat list \<Rightarrow> pyfloat list" where
  "match_loop [] values = values"
| "match_loop (m # ms) values =
     (case parse_financial_value m of
        None \<Rightarrow> match_loop ms values
      | Some parsed_value \<Rightarrow>
          if truthy parsed_value then match_loop ms (values @ [parsed_value])
          else match_loop ms values)"

fun pattern_loop :: "pattern list \<Rightarrow> string \<Rightarrow> pyfloat list \<Rightarrow> pyfloat list" where
  "pattern_loop [] text values = values"
| "pattern_loop (p # ps) text values = pattern_loop ps text (match_loop (findall p text) values)"

fun metric_loop :: "(string \<times> pattern list) list \<Rightarrow> string \<Rightarrow> pyfloat dict \<Rightarrow> pyfloat dict" where
  "metric_loop [] text metrics = metrics"
| "metric_loop ((metric_type, patterns) # rest) text metrics =
     (let values = pattern_loop patterns text [] in
      metric_loop rest text
        (if values \<noteq> [] then AList.update metric_type (np_median values) metrics else metrics))"

definition extract_financial_metrics :: "string \<Rightarrow> pyfloat dict" where
  "extract_financial_metrics text = metric_loop financial_patterns text []"

text \<open>
  For the statements: all matches of a list of patterns, the values of those that
  parse, and the values that are kept.
\<close>

definition all_matches :: "pattern list \<Rightarrow> string \<Rightarrow> string list" where
  "all_matches ps text = concat (map (\<lambda>p. findall p text) ps)"

definition parsed_values :: "pattern list \<Rightarrow> string \<Rightarrow> pyfloat list" where
  "parsed_values ps text = List.map_filter parse_financial_value (all_matches ps text)"

definition nonzero_values :: "pattern list \<Rightarrow> string \<Rightarrow> pyfloat list" where
  "nonzero_values ps text = filter truthy (parsed_values ps text)"

text \<open>\<open>self.financial_patterns[metric_type]\<close>, empty for a key that is not in the table.\<close>

definition patterns_of :: "string \<Rightarrow> pattern list" where
  "patterns_of k = (case map_of financial_patterns k of None \<Rightarrow> [] | Some ps \<Rightarrow> ps)"

text \<open>A text made of the given lines.\<close>

fun join_lines :: "string list \<Rightarrow> string" where
  "join_lines [] = []"
| "join_lines [l] = l"
| "join_lines (l # ls) = l @ CHR 0x0A # join_lines ls"

section \<open>Ensemble predictor\<close>

text \<open>
  A value of a feature dictionary is a number (\<open>int\<close> or \<open>float\<close>) or a string.
  Arithmetic and comparison on a string raise \<open>TypeError\<close>, which is \<open>None\<close>;
  only \<open>str * int\<close> is defined, as repetition.
\<close>

datatype pyval = Num real | Str string

fun num :: "pyval \<Rightarrow> real option" where
  "num (Num x) = Some x"
| "num (Str s) = None"

text \<open>\<open>v * n\<close> for an integer literal and \<open>v * c\<close> for a float literal.\<close>

fun mul_int :: "pyval \<Rightarrow> nat \<Rightarrow> pyval" where
  "mul_int (Num x) n = Num (x * real n)"
| "mul_int (Str s) n = Str (concat (replicate n s))"

fun mul_float :: "pyval \<Rightarrow> real \<Rightarrow> pyval option" where
  "mul_float (Num x) c = Some (Num (x * c))"
| "mul_float (Str s) c = None"

text \<open>\<open>d.get(k, default)\<close>\<close>

definition get :: "'v dict \<Rightarrow> string \<Rightarrow> 'v \<Rightarrow> 'v" where
  "get d k dflt = (case map_of d k of None \<Rightarrow> dflt | Some v \<Rightarrow> v)"

record ProductionStartupFeatures =
  company_name :: pyval
  industry :: pyval
  founded_year :: pyval
  team_size :: pyval
  location :: pyval
  business_stage :: pyval
  funding_total_usd :: pyval
  funding_rounds :: pyval
  current_revenue_usd :: pyval
  projected_revenue_y1 :: pyval
  projected_revenue_y3 :: pyval
  burn_rate_monthly :: pyval
  runway_months :: pyval
  gross_margin_percent :: pyval
  market_size_billions :: pyval
  addressable_market_billions :: pyval
  market_growth_rate :: pyval
  competition_level :: pyval
  competitive_advantage_score :: pyval
  founder_experience_years :: pyval
  team_technical_score :: pyval
  team_business_score :: pyval
  advisor_quality_score :: pyval
  product_readiness_score :: pyval
  tech_differentiation_score :: pyval
  user_traction_score :: pyval
  product_market_fit_score :: pyval
  business_model_clarity :: pyval
  revenue_model_strength :: pyval
  scalability_score :: pyval
  go_to_market_score :: pyval
  market_risk_score :: pyval
  technical_risk_score :: pyval
  team_risk_score :: pyval
  financial_risk_score :: pyval
  regulatory_risk_score :: pyval
  industry_trend_score :: pyval
  economic_environment_score :: pyval
  vc_funding_climate_score :: pyval
  pitch_clarity_score :: pyval
  financial_projections_realism :: pyval
  presentation_quality_score :: pyval

text \<open>
  \<open>extract_features_from_data\<close>.  The defaults of \<open>get\<close> are evaluated before the
  lookup, so \<open>market_size * 0.1\<close> raises for a string even when \<open>sam\<close> is given.
\<close>

definition extract_features_from_data :: "pyval dict \<Rightarrow> ProductionStartupFeatures option" where
  "extract_features_from_data startup_data =
     (let revenue = get startup_data ''revenue'' (Num 0);
          market_size = get startup_data ''market_size'' (Num 1)
      in case mul_float market_size (1 / 10) of
           None \<Rightarrow> None
         | Some sam_default \<Rightarrow> Some
      \<lparr>company_name = get startup_data ''company_name'' (Str ''''),
       industry = get startup_data ''industry'' (Str ''Technology''),
       founded_year = get startup_data ''founded_year'' (Num 2020),
       team_size = get startup_data ''team_size'' (Num 5),
       location = get startup_data ''location'' (Str ''Unknown''),
       business_stage = get startup_data ''business_stage'' (Str ''Seed''),
       funding_total_usd = get startup_data ''funding_total'' (Num 0),
       funding_rounds = get startup_data ''funding_rounds'' (Num 0),
       current_revenue_usd = revenue,
       projected_revenue_y1 = get startup_data ''projected_revenue_y1'' (mul_int revenue 2),
       projected_revenue_y3 = get startup_data ''projected_revenue_y3'' (mul_int revenue 5),
       burn_rate_monthly = get startup_data ''burn_rate'' (Num 50000),
       runway_months = get startup_data ''runway_months'' (Num 12),
       gross_margin_percent = get startup_data ''gross_margin'' (Num 70),
       market_size_billions = market_size,
       addressable_market_billions = get startup_data ''sam'' sam_default,
       market_growth_rate = get startup_data ''market_growth_rate'' (Num 10),
       competition_level = get startup_data ''competition_level'' (Num 3),
       competitive_advantage_score = get startup_data ''competitive_advantage'' (Num (5 / 10)),
       founder_experience_years = get startup_data ''founder_experience'' (Num 5),
       team_technical_score = get startup_data ''team_technical_score'' (Num (6 / 10)),
       team_business_score = get startup_data ''team_business_score'' (Num (6 / 10)),
       advisor_quality_score = get startup_data ''advisor_quality'' (Num (5 / 10)),
       product_readiness_score = get startup_data ''product_readiness'' (Num (6 / 10)),
       tech_differentiation_score = get startup_data ''tech_differentiation'' (Num (5 / 10)),
       user_traction_score = get startup_data ''user_traction'' (Num (3 / 10)),
       product_market_fit_score = get startup_data ''pmf_score'' (Num (4 / 10)),
       business_model_clarity = get startup_data ''business_model_clarity'' (Num (6 / 10)),
       revenue_model_strength = get startup_data ''revenue_model_strength'' (Num (6 / 10)),
       scalability_score = get startup_data ''scalability'' (Num (6 / 10)),
       go_to_market_score = get startup_data ''gtm_score'' (Num (5 / 10)),
       market_risk_score = get startup_data ''market_risk'' (Num (4 / 10)),
       technical_risk_score = get startup_data ''tech_risk'' (Num (4 / 10)),
       team_risk_score = get startup_data ''team_risk'' (Num (3 / 10)),
       financial_risk_score = get startup_data ''financial_risk'' (Num (5 / 10)),
       regulatory_risk_score = get startup_data ''regulatory_risk'' (Num (3 / 10)),
       industry_trend_score = get startup_data ''industry_trend'' (Num (6 / 10)),
       economic_environment_score = get startup_data ''economic_environment'' (Num (5 / 10)),
       vc_funding_climate_score = get startup_data ''vc_climate'' (Num (6 / 10)),
       pitch_clarity_score = get startup_data ''pitch_clarity'' (Num (6 / 10)),
       financial_projections_realism = get startup_data ''projections_realism'' (Num (6 / 10)),
       presentation_quality_score = get startup_data ''presentation_quality'' (Num (6 / 10))\<rparr>)"

text \<open>\<open>asdict(features)\<close>\<close>

definition asdict :: "ProductionStartupFeatures \<Rightarrow> pyval dict" where
  "asdict f =
     [(''company_name'', company_name f), (''industry'', industry f),
      (''founded_year'', founded_year f), (''team_size'', team_size f),
      (''location'', location f), (''business_stage'', business_stage f),
      (''funding_total_usd'', funding_total_usd f), (''funding_rounds'', funding_rounds f),
      (''current_revenue_usd'', current_revenue_usd f),
      (''projected_revenue_y1'', projected_revenue_y1 f),
      (''projected_revenue_y3'', projected_revenue_y3 f),
      (''burn_rate_monthly'', burn_rate_monthly f), (''runway_months'', runway_months f),
      (''gross_margin_percent'', gross_margin_percent f),
      (''market_size_billions'', market_size_billions f),
      (''addressable_market_billions'', addressable_market_billions f),
      (''market_growth_rate'', market_growth_rate f),
      (''competition_level'', competition_level f),
      (''competitive_advantage_score'', competitive_advantage_score f),
      (''founder_experience_years'', founder_experience_years f),
      (''team_technical_score'', team_technical_score f),
      (''team_business_score'', team_business_score f),
      (''advisor_quality_score'', advisor_quality_score f),
      (''product_readiness_score'', product_readiness_score f),
      (''tech_differentiation_score'', tech_differentiation_score f),
      (''user_traction_score'', user_traction_score f),
      (''product_market_fit_score'', product_market_fit_score f),
      (''business_model_clarity'', business_model_clarity f),
      (''revenue_model_strength'', revenue_model_strength f),
      (''scalability_score'', scalability_score f),
      (''go_to_market_score'', go_to_market_score f),
      (''market_risk_score'', market_risk_score f),
      (''technical_risk_score'', technical_risk_score f),
      (''team_risk_score'', team_risk_score f),
      (''financial_risk_score'', financial_risk_score f),
      (''regulatory_risk_score'', regulatory_risk_score f),
      (''industry_trend_score'', industry_trend_score f),
      (''economic_environment_score'', economic_environment_score f),
      (''vc_funding_climate_score'', vc_funding_climate_score f),
      (''pitch_clarity_score'', pitch_clarity_score f),
      (''financial_projections_realism'', financial_projections_realism f),
      (''presentation_quality_score'', presentation_quality_score f)]"

text \<open>
  The six sub-scores.  Each is a number when the fields it reads are numbers.  For a
  string field Python raises \<open>TypeError\<close> in the sum, or (when all terms are strings)
  returns a string and raises in the comparisons of the factor lists below; both are
  \<open>None\<close>.
\<close>

definition calculate_market_score :: "ProductionStartupFeatures \<Rightarrow> real option" where
  "calculate_market_score features = do {
     market_size \<leftarrow> num (market_size_billions features);
     growth \<leftarrow> num (market_growth_rate features);
     competition \<leftarrow> num (competition_level features);
     advantage \<leftarrow> num (competitive_advantage_score features);
     let market_size_score = min (market_size / 10) 1 * 30;
     let growth_score = min (growth / 20) 1 * 25;
     let competition_score = (5 - competition) / 4 * 20;
     let advantage_score = advantage * 25;
     Some (market_size_score + growth_score + competition_score + advantage_score)
   }"

definition calculate_team_score :: "ProductionStartupFeatures \<Rightarrow> real option" where
  "calculate_team_score features = do {
     experience \<leftarrow> num (founder_experience_years features);
     technical \<leftarrow> num (team_technical_score features);
     business \<leftarrow> num (team_business_score features);
     advisor \<leftarrow> num (advisor_quality_score features);
     let experience_score = min (experience / 10) 1 * 30;
     let technical_score = technical * 25;
     let business_score = business * 25;
     let advisor_score = advisor * 20;
     Some (experience_score + technical_score + business_score + advisor_score)
   }"

definition calculate_product_score :: "ProductionStartupFeatures \<Rightarrow> real option" where
  "calculate_product_score features = do {
     readiness \<leftarrow> num (product_readiness_score features);
     differentiation \<leftarrow> num (tech_differentiation_score features);
     traction \<leftarrow> num (user_traction_score features);
     pmf \<leftarrow> num (product_market_fit_score features);
     Some (readiness * 30 + differentiation * 25 + traction * 25 + pmf * 20)
   }"

definition calculate_business_model_score :: "ProductionStartupFeatures \<Rightarrow> real option" where
  "calculate_business_model_score features = do {
     clarity \<leftarrow> num (business_model_clarity features);
     revenue \<leftarrow> num (revenue_model_strength features);
     scalability \<leftarrow> num (scalability_score features);
     gtm \<leftarrow> num (go_to_market_score features);
     Some (clarity * 25 + revenue * 25 + scalability * 25 + gtm * 25)
   }"

definition calculate_financial_score :: "ProductionStartupFeatures \<Rightarrow> real option" where
  "calculate_financial_score features = do {
     revenue \<leftarrow> num (current_revenue_usd features);
     projected \<leftarrow> num (projected_revenue_y1 features);
     runway \<leftarrow> num (runway_months features);
     margin \<leftarrow> num (gross_margin_percent features);
     let revenue_score = min (revenue / 1000000) 1 * 25;
     let growth_score = min ((projected / max revenue 1) / 3) 1 * 25;
     let runway_score = min (runway / 24) 1 * 25;
     let margin_score = margin / 100 * 25;
     Some (revenue_score + growth_score + runway_score + margin_score)
   }"

definition calculate_risk_score :: "ProductionStartupFeatures \<Rightarrow> real option" where
  "calculate_risk_score features = do {
     market \<leftarrow> num (market_risk_score features);
     tech \<leftarrow> num (technical_risk_score features);
     team \<leftarrow> num (team_risk_score features);
     financial \<leftarrow> num (financial_risk_score features);
     regulatory \<leftarrow> num (regulatory_risk_score features);
     let market_risk = market * 20;
     let tech_risk = tech * 20;
     let team_risk = team * 20;
     let financial_risk = financial * 20;
     let regulatory_risk = regulatory * 20;
     Some ((market_risk + tech_risk + team_risk + financial_risk + regulatory_risk) * 100)
   }"

text \<open>The factor lists: rules in the order of the source, cut to three entries.\<close>

definition get_key_strengths :: "ProductionStartupFeatures \<Rightarrow> (string \<times> real) list option" where
  "get_key_strengths features = do {
     market_size \<leftarrow> num (market_size_billions features);
     technical \<leftarrow> num (team_technical_score features);
     advantage \<leftarrow> num (competitive_advantage_score features);
     traction \<leftarrow> num (user_traction_score features);
     Some (take 3
       ((if market_size > 5 then [(''Large market opportunity'', market_size)] else []) @
        (if technical > 7 / 10 then [(''Strong technical team'', technical)] else []) @
        (if advantage > 7 / 10 then [(''Clear competitive advantage'', advantage)] else []) @
        (if traction > 6 / 10 then [(''Strong user traction'', traction)] else [])))
   }"

definition get_key_risks :: "ProductionStartupFeatures \<Rightarrow> (string \<times> real) list option" where
  "get_key_risks features = do {
     market_risk \<leftarrow> num (market_risk_score features);
     runway \<leftarrow> num (runway_months features);
     competition \<leftarrow> num (competition_level features);
     team_risk \<leftarrow> num (team_risk_score features);
     Some (take 3
       ((if market_risk > 6 / 10 then [(''High market risk'', market_risk)] else []) @
        (if runway < 6 then [(''Short runway'', runway)] else []) @
        (if competition \<ge> 4 then [(''High competition'', competition)] else []) @
        (if team_risk > 6 / 10 then [(''Team execution risk'', team_risk)] else [])))
   }"

definition get_improvement_areas :: "ProductionStartupFeatures \<Rightarrow> string list option" where
  "get_improvement_areas features = do {
     traction \<leftarrow> num (user_traction_score features);
     gtm \<leftarrow> num (go_to_market_score features);
     runway \<leftarrow> num (runway_months features);
     business \<leftarrow> num (team_business_score features);
     Some (take 3
       ((if traction < 4 / 10 then [''Increase user traction and engagement''] else []) @
        (if gtm < 5 / 10 then [''Strengthen go-to-market strategy''] else []) @
        (if runway < 12 then [''Extend financial runway''] else []) @
        (if business < 6 / 10 then [''Strengthen business expertise on team''] else [])))
   }"

record ProductionPredictionResult =
  success_probability :: real
  success_category :: string
  confidence_interval :: "real \<times> real"
  investment_recommendation :: string
  market_score :: real
  team_score :: real
  product_score :: real
  business_model_score :: real
  financial_score :: real
  risk_score :: real
  key_strengths :: "(string \<times> real) list"
  key_risks :: "(string \<times> real) list"
  improvement_areas :: "string list"
  model_confidence :: real
  prediction_timestamp :: string
  model_version :: string
  feature_count :: nat

text \<open>
  What scikit-learn returns when \<open>train_ensemble_model\<close> fits the scaler, the three
  base classifiers and the soft-voting ensemble on the synthetic data: a fitted
  classifier is the function from a scaled feature row to \<open>predict_proba(X)[0, 1]\<close>.
\<close>

record sklearn =
  fitted_scaler :: "real list \<Rightarrow> real list"
  fitted_model :: "string \<Rightarrow> real list \<Rightarrow> real"
  fitted_ensemble :: "real list \<Rightarrow> real"
  fitted_importances :: "real list"
  fitted_scores :: "(string \<times> (string \<times> real) list) list"

text \<open>
  The state of a \<open>ProductionEnsemblePredictor\<close>.  The scaler and the ensemble are
  \<open>None\<close> until they are fitted; using them before raises.
\<close>

record ProductionEnsemblePredictor =
  model_version :: string
  models :: "(real list \<Rightarrow> real) dict"
  ensemble_model :: "(real list \<Rightarrow> real) option"
  feature_scaler :: "(real list \<Rightarrow> real list) option"
  feature_importance :: "real dict"
  is_trained :: bool
  feature_columns :: "string list"
  model_performance :: "(string \<times> real) list dict"

text \<open>\<open>ProductionEnsemblePredictor(model_version)\<close>\<close>

definition new_predictor :: "string \<Rightarrow> ProductionEnsemblePredictor" where
  "new_predictor version =
     \<lparr>model_version = version, models = [], ensemble_model = None, feature_scaler = None,
      feature_importance = [], is_trained = False, feature_columns = [],
      model_performance = []\<rparr>"

definition base_models :: "string list" where
  "base_models = [''random_forest'', ''gradient_boosting'', ''ada_boost'']"

text \<open>The columns of the training frame: the keys of a sample without \<open>is_success\<close>.\<close>

definition training_columns :: "string list" where
  "training_columns =
     [''funding_total_usd'', ''funding_rounds'', ''team_size'', ''founded_year'',
      ''current_revenue_usd'', ''projected_revenue_y1'', ''projected_revenue_y3'',
      ''burn_rate_monthly'', ''runway_months'', ''gross_margin_percent'',
      ''market_size_billions'', ''addressable_market_billions'', ''market_growth_rate'',
      ''competition_level'', ''competitive_advantage_score'',
      ''founder_experience_years'', ''team_technical_score'', ''team_business_score'',
      ''advisor_quality_score'',
      ''product_readiness_score'', ''tech_differentiation_score'', ''user_traction_score'',
      ''product_market_fit_score'',
      ''business_model_clarity'', ''revenue_model_strength'', ''scalability_score'',
      ''go_to_market_score'',
      ''market_risk_score'', ''technical_risk_score'', ''team_risk_score'',
      ''financial_risk_score'', ''regulatory_risk_score'',
      ''industry_trend_score'', ''economic_environment_score'', ''vc_funding_climate_score'',
      ''pitch_clarity_score'', ''financial_projections_realism'',
      ''presentation_quality_score'']"

definition train_ensemble_model ::
  "sklearn \<Rightarrow> ProductionEnsemblePredictor \<Rightarrow> ProductionEnsemblePredictor" where
  "train_ensemble_model sk self =
     self\<lparr>feature_columns := training_columns,
          feature_scaler := Some (fitted_scaler sk),
          models := fold (\<lambda>name ms. AList.update name (fitted_model sk name) ms)
                         base_models (models self),
          ensemble_model := Some (fitted_ensemble sk),
          model_performance := fitted_scores sk,
          is_trained := True,
          feature_importance := zip training_columns (fitted_importances sk)\<rparr>"

text \<open>\<open>np.std\<close>: the population standard deviation.\<close>

definition np_mean :: "real list \<Rightarrow> real" where
  "np_mean xs = sum_list xs / real (length xs)"

definition np_std :: "real list \<Rightarrow> real" where
  "np_std xs = sqrt (np_mean (map (\<lambda>x. (x - np_mean xs)\<^sup>2) xs))"

text \<open>\<open>isinstance(v, (int, float))\<close>\<close>

fun is_number :: "pyval \<Rightarrow> bool" where
  "is_number (Num x) = True"
| "is_number (Str s) = False"

text \<open>
  The feature row handed to the scaler: the numeric fields that are training columns,
  \<open>0.0\<close> for a column without one, in the order of the training columns.
\<close>

definition feature_row :: "string list \<Rightarrow> ProductionStartupFeatures \<Rightarrow> real list" where
  "feature_row columns features =
     (let feature_dict = asdict features;
          numeric_features = filter (\<lambda>(k, v). k \<in> set columns \<and> is_number v) feature_dict
      in map (\<lambda>col. case map_of numeric_features col of Some (Num x) \<Rightarrow> x | _ \<Rightarrow> 0) columns)"

definition categorize :: "real \<Rightarrow> string \<times> string" where
  "categorize probability =
     (if probability \<ge> 7 / 10 then (''High Potential'', ''INVEST'')
      else if probability \<ge> 4 / 10 then (''Medium Potential'', ''WATCH'')
      else (''Low Potential'', ''PASS''))"

text \<open>\<open>if not self.is_trained: self.train_ensemble_model()\<close>\<close>

definition ensure_trained ::
  "sklearn \<Rightarrow> ProductionEnsemblePredictor \<Rightarrow> ProductionEnsemblePredictor" where
  "ensure_trained sk self = (if \<not> is_trained self then train_ensemble_model sk self else self)"

text \<open>
  \<open>predict_startup_success\<close>: the result, \<open>None\<close> when an exception is raised, and
  the predictor, which is trained by the first call.  \<open>now\<close> is the clock reading.
\<close>

definition predict_startup_success ::
  "sklearn \<Rightarrow> string \<Rightarrow> ProductionEnsemblePredictor \<Rightarrow> pyval dict
     \<Rightarrow> ProductionPredictionResult option \<times> ProductionEnsemblePredictor" where
  "predict_startup_success sk now self0 startup_data =
     (let self = ensure_trained sk self0 in
      (do {
         features \<leftarrow> extract_features_from_data startup_data;
         let X = feature_row (feature_columns self) features;
         scaler \<leftarrow> feature_scaler self;
         let X_scaled = scaler X;
         ensemble \<leftarrow> ensemble_model self;
         let probability = ensemble X_scaled;
         let individual_predictions = map (\<lambda>(name, model). model X_scaled) (models self);
         let pred_std = np_std individual_predictions;
         let confidence_lower = max 0 (probability - 196 / 100 * pred_std);
         let confidence_upper = min 1 (probability + 196 / 100 * pred_std);
         let (category, recommendation) = categorize probability;
         market \<leftarrow> calculate_market_score features;
         team \<leftarrow> calculate_team_score features;
         product \<leftarrow> calculate_product_score features;
         business_model \<leftarrow> calculate_business_model_score features;
         financial \<leftarrow> calculate_financial_score features;
         risk \<leftarrow> calculate_risk_score features;
         strengths \<leftarrow> get_key_strengths features;
         risks \<leftarrow> get_key_risks features;
         areas \<leftarrow> get_improvement_areas features;
         Some \<lparr>success_probability = probability,
               success_category = category,
               confidence_interval = (confidence_lower, confidence_upper),
               investment_recommendation = recommendation,
               market_score = market,
               team_score = team,
               product_score = product,
               business_model_score = business_model,
               financial_score = financial,
               risk_score = risk,
               key_strengths = strengths,
               key_risks = risks,
               improvement_areas = areas,
               model_confidence = 1 - pred_std,
               prediction_timestamp = now,
               ProductionPredictionResult.model_version =
                 ProductionEnsemblePredictor.model_version self,
               feature_count = length (feature_columns self)\<rparr>
       }, self))"

text \<open>\<open>save_model\<close> and \<open>load_model\<close>: the artifact is the dictionary that is pickled.\<close>

record artifact =
  a_ensemble_model :: "(real list \<Rightarrow> real) option"
  a_individual_models :: "(real list \<Rightarrow> real) dict"
  a_feature_scaler :: "(real list \<Rightarrow> real list) option"
  a_feature_columns :: "string list"
  a_feature_importance :: "real dict"
  a_model_performance :: "(string \<times> real) list dict"
  a_model_version :: string

definition save_model :: "ProductionEnsemblePredictor \<Rightarrow> artifact option" where
  "save_model self =
     (if \<not> is_trained self then None
      else Some \<lparr>a_ensemble_model = ensemble_model self,
                  a_individual_models = models self,
                  a_feature_scaler = feature_scaler self,
                  a_feature_columns = feature_columns self,
                  a_feature_importance = feature_importance self,
                  a_model_performance = model_performance self,
                  a_model_version = ProductionEnsemblePredictor.model_version self\<rparr>)"

definition load_model :: "artifact \<Rightarrow> ProductionEnsemblePredictor \<Rightarrow> ProductionEnsemblePredictor" where
  "load_model model_data self =
     self\<lparr>ensemble_model := a_ensemble_model model_data,
          models := a_individual_models model_data,
          feature_scaler := a_feature_scaler model_data,
          feature_columns := a_feature_columns model_data,
          feature_importance := a_feature_importance model_data,
          model_performance := a_model_performance model_data,
          ProductionEnsemblePredictor.model_version := a_model_version model_data,
          is_trained := True\<rparr>"

text \<open>A library whose fitted classifiers all return the probability \<open>c\<close>.\<close>

definition constant_sklearn :: "real \<Rightarrow> sklearn" where
  "constant_sklearn c =
     \<lparr>fitted_scaler = (\<lambda>X. X), fitted_model = (\<lambda>name X. c), fitted_ensemble = (\<lambda>X. c),
      fitted_importances = [], fitted_scores = []\<rparr>"

text \<open>
  The keys of a feature dictionary whose values enter the arithmetic of a prediction,
  and the dictionaries that hold no string under them.
\<close>

definition numeric_keys :: "string list" where
  "numeric_keys =
     [''revenue'', ''runway_months'', ''gross_margin'', ''market_size'', ''market_growth_rate'',
      ''competition_level'', ''competitive_advantage'', ''founder_experience'',
      ''team_technical_score'', ''team_business_score'', ''advisor_quality'',
      ''product_readiness'', ''tech_differentiation'', ''user_traction'', ''pmf_score'',
      ''business_model_clarity'', ''revenue_model_strength'', ''scalability'', ''gtm_score'',
      ''market_risk'', ''tech_risk'', ''team_risk'', ''financial_risk'', ''regulatory_risk'',
      ''projected_revenue_y1'']"

definition numeric_data :: "pyval dict \<Rightarrow> bool" where
  "numeric_data d =
     list_all (\<lambda>k. case map_of d k of Some (Str s) \<Rightarrow> False | _ \<Rightarrow> True) numeric_keys"

fun the_num :: "pyval \<Rightarrow> real" where
  "the_num (Num x) = x"
| "the_num (Str s) = 0"

section \<open>Pipeline orchestrator\<close>

text \<open>The outcome of a call into a library: it raises or it returns.\<close>

datatype 'a outcome = Raised | Returned 'a

record ExtractedFinancialData =
  current_revenue :: "real option"
  projected_revenue_y1 :: "real option"
  projected_revenue_y2 :: "real option"
  projected_revenue_y3 :: "real option"
  revenue_growth_rate :: "real option"
  funding_requested :: "real option"
  funding_to_date :: "real option"
  valuation :: "real option"
  use_of_funds :: "string list"
  gross_margin :: "real option"
  burn_rate :: "real option"
  runway_months :: "real option"
  cac :: "real option"
  ltv :: "real option"
  market_size_tam :: "real option"
  market_size_sam :: "real option"
  market_size_som :: "real option"
  market_growth_rate :: "real option"
  team_size :: "int option"
  customers :: "int option"
  retention_rate :: "real option"
  business_model :: "string option"
  competitive_advantages :: "string list"
  key_risks :: "string list"
  extraction_confidence :: real
  completeness_score :: real

text \<open>\<open>ExtractedFinancialData()\<close>\<close>

definition empty_data :: ExtractedFinancialData where
  "empty_data =
     \<lparr>current_revenue = None, projected_revenue_y1 = None, projected_revenue_y2 = None,
      projected_revenue_y3 = None, revenue_growth_rate = None, funding_requested = None,
      funding_to_date = None, valuation = None, use_of_funds = [], gross_margin = None,
      burn_rate = None, runway_months = None, cac = None, ltv = None, market_size_tam = None,
      market_size_sam = None, market_size_som = None, market_growth_rate = None,
      team_size = None, customers = None, retention_rate = None, business_model = None,
      competitive_advantages = [], key_risks = [], extraction_confidence = 0,
      completeness_score = 0\<rparr>"

text \<open>
  The PDF libraries and what lies behind them.  \<open>plumber\<close> is \<open>pdfplumber.open\<close> with
  the result of \<open>extract_text\<close> for each page, \<open>pypdf\<close> is \<open>open\<close> and
  \<open>PyPDF2.PdfReader\<close> likewise.  \<open>analysis\<close> is the part of
  \<open>extract_financial_data\<close> after the text is found non-empty (tables, regex,
  language models and their combination), for a path and its text.
\<close>

record pdf_libraries =
  plumber :: "string \<Rightarrow> string option outcome list outcome"
  pypdf :: "string \<Rightarrow> string outcome list outcome"
  analysis :: "string \<Rightarrow> string \<Rightarrow> ExtractedFinancialData outcome"

text \<open>The page loops: an exception ends the loop and keeps the text read so far.\<close>

fun plumber_loop :: "string option outcome list \<Rightarrow> string \<Rightarrow> string" where
  "plumber_loop [] text_content = text_content"
| "plumber_loop (Raised # pages) text_content = text_content"
| "plumber_loop (Returned None # pages) text_content = plumber_loop pages text_content"
| "plumber_loop (Returned (Some page_text) # pages) text_content =
     plumber_loop pages
       (if page_text \<noteq> [] then text_content @ page_text @ [CHR 0x0A] else text_content)"

fun pypdf_loop :: "string outcome list \<Rightarrow> string \<Rightarrow> string" where
  "pypdf_loop [] text_content = text_content"
| "pypdf_loop (Raised # pages) text_content = text_content"
| "pypdf_loop (Returned page_text # pages) text_content =
     pypdf_loop pages (text_content @ page_text @ [CHR 0x0A])"

definition extract_text_from_pdf :: "pdf_libraries \<Rightarrow> string \<Rightarrow> string" where
  "extract_text_from_pdf lib pdf_path =
     (let text_content =
            (case plumber lib pdf_path of Raised \<Rightarrow> [] | Returned pages \<Rightarrow> plumber_loop pages [])
      in if text_content = [] then
           (case pypdf lib pdf_path of
              Raised \<Rightarrow> text_content
            | Returned pages \<Rightarrow> pypdf_loop pages text_content)
         else text_content)"

definition extract_financial_data :: "pdf_libraries \<Rightarrow> string \<Rightarrow> ExtractedFinancialData outcome" where
  "extract_financial_data lib pdf_path =
     (let text = extract_text_from_pdf lib pdf_path in
      if text = [] then Returned empty_data else analysis lib pdf_path text)"

text \<open>\<open>d.update(other)\<close>, and \<open>if x:\<close> for an optional number.\<close>

definition update_all :: "'v dict \<Rightarrow> 'v dict \<Rightarrow> 'v dict" where
  "update_all other d = fold (\<lambda>(k, v). AList.update k v) other d"

fun nonzero :: "'a::zero option \<Rightarrow> bool" where
  "nonzero None = False"
| "nonzero (Some x) = (x \<noteq> 0)"

text \<open>
  \<open>_convert_pdf_to_ml_features\<close>: the assignments of each statement, in order.
\<close>

definition convert_pdf_to_ml_features :: "ExtractedFinancialData \<Rightarrow> pyval dict" where
  "convert_pdf_to_ml_features pdf_data =
     update_all
       ((case current_revenue pdf_data of
           Some r \<Rightarrow> if r \<noteq> 0 then [(''revenue'', Num r), (''current_revenue_usd'', Num r)] else []
         | None \<Rightarrow> []) @
        (case projected_revenue_y1 pdf_data of
           Some y \<Rightarrow> if y \<noteq> 0 then [(''projected_revenue_y1'', Num y)] else []
         | None \<Rightarrow> []) @
        (case projected_revenue_y3 pdf_data of
           Some y \<Rightarrow> if y \<noteq> 0 then [(''projected_revenue_y3'', Num y)] else []
         | None \<Rightarrow> []) @
        (case (current_revenue pdf_data, projected_revenue_y1 pdf_data) of
           (Some r, Some y) \<Rightarrow>
             if r \<noteq> 0 \<and> y \<noteq> 0
             then [(''growth_rate'', Num (y / r - 1)), (''revenue_growth_rate'', Num (y / r - 1))]
             else []
         | _ \<Rightarrow> []) @
        (case funding_requested pdf_data of
           Some f \<Rightarrow> if f \<noteq> 0 then [(''funding_total'', Num f), (''funding_total_usd'', Num f)] else []
         | None \<Rightarrow> []) @
        (if nonzero (funding_to_date pdf_data) then [(''funding_rounds'', Num 1)] else []) @
        (case market_size_tam pdf_data of
           Some m \<Rightarrow>
             if m \<noteq> 0
             then [(''market_size'', Num (m / 1000000000)),
                   (''market_size_billions'', Num (m / 1000000000))]
             else []
         | None \<Rightarrow> []) @
        (case market_size_sam pdf_data of
           Some m \<Rightarrow> if m \<noteq> 0 then [(''addressable_market_billions'', Num (m / 1000000000))] else []
         | None \<Rightarrow> []) @
        (case team_size pdf_data of
           Some n \<Rightarrow> if n \<noteq> 0 then [(''team_size'', Num (real_of_int n))] else []
         | None \<Rightarrow> []) @
        (case customers pdf_data of
           Some n \<Rightarrow>
             if n \<noteq> 0
             then [(''customers'', Num (real_of_int n)),
                   (''user_traction_score'', Num (min (real_of_int n / 10000) 1))]
             else []
         | None \<Rightarrow> []) @
        (case gross_margin pdf_data of
           Some g \<Rightarrow> if g \<noteq> 0 then [(''gross_margin_percent'', Num g)] else []
         | None \<Rightarrow> []) @
        (case burn_rate pdf_data of
           Some b \<Rightarrow> if b \<noteq> 0 then [(''burn_rate_monthly'', Num b)] else []
         | None \<Rightarrow> []) @
        (case runway_months pdf_data of
           Some m \<Rightarrow> if m \<noteq> 0 then [(''runway_months'', Num m)] else []
         | None \<Rightarrow> []) @
        (case business_model pdf_data of
           Some b \<Rightarrow>
             if b \<noteq> []
             then [(''business_model'', Str b),
                   (''business_model_clarity'', Num (min (real (length b) / 100) 1))]
             else []
         | None \<Rightarrow> []) @
        [(''product_readiness_score'',
            Num (if (case current_revenue pdf_data of Some r \<Rightarrow> r \<noteq> 0 \<and> r > 0 | None \<Rightarrow> False)
                 then 8 / 10
                 else if (case customers pdf_data of Some n \<Rightarrow> n \<noteq> 0 \<and> n > 0 | None \<Rightarrow> False)
                 then 6 / 10
                 else 4 / 10)),
         (''extraction_confidence'', Num (extraction_confidence pdf_data)),
         (''data_completeness'', Num (completeness_score pdf_data))])
       []"

text \<open>\<open>extract_features_from_pdf\<close>: any exception gives the empty data and no features.\<close>

definition extract_features_from_pdf ::
  "pdf_libraries \<Rightarrow> string \<Rightarrow> ExtractedFinancialData \<times> pyval dict" where
  "extract_features_from_pdf lib pdf_path =
     (case extract_financial_data lib pdf_path of
        Raised \<Rightarrow> (empty_data, [])
      | Returned pdf_data \<Rightarrow> (pdf_data, convert_pdf_to_ml_features pdf_data))"

text \<open>
  The \<open>StartupData\<close> of the agents module is a dataclass with these fields; its
  constructor raises \<open>TypeError\<close> for an unknown keyword or a missing required one.
\<close>

definition StartupData_required :: "string list" where
  "StartupData_required = [''company_name'', ''founder_name'', ''business_description'']"

definition StartupData_optional :: "string list" where
  "StartupData_optional =
     [''pitch_deck_url'', ''website_url'', ''industry'', ''funding_stage'', ''team_size'']"

definition StartupData :: "string dict \<Rightarrow> string dict option" where
  "StartupData kwargs =
     (if list_all (\<lambda>k. k \<in> set (StartupData_required @ StartupData_optional)) (map fst kwargs)
         \<and> list_all (\<lambda>k. k \<in> set (map fst kwargs)) StartupData_required
      then Some kwargs else None)"

record ProductionAnalysisInput =
  company_name :: string
  industry :: "string option"
  description :: "string option"
  pdf_path :: "string option"
  audio_path :: "string option"
  video_path :: "string option"
  manual_data :: "pyval dict option"
  use_pdf_extraction :: bool
  use_ai_agents :: bool
  use_ml_prediction :: bool
  analysis_id :: "string option"
  timestamp :: "string option"

record ProductionAnalysisResult =
  analysis_id :: string
  company_name :: string
  timestamp :: string
  ml_prediction :: ProductionPredictionResult
  pdf_data :: "ExtractedFinancialData option"
  agent_analysis :: "pyval dict option"
  processing_time_seconds :: real
  pipeline_version :: string
  components_used :: "string list"
  overall_confidence :: real
  data_completeness :: real

text \<open>
  The pipeline object, and the world around one call: the libraries, whether the
  agents module was imported, and the readings of the clock.
\<close>

record ProductionMLPipeline =
  version :: string
  ml_predictor :: ProductionEnsemblePredictor
  agent_orchestrator :: "(string dict \<Rightarrow> string outcome) option"
  analysis_count :: nat
  total_processing_time :: real

record world =
  pdf_lib :: pdf_libraries
  ml_lib :: sklearn
  AGENTS_AVAILABLE :: bool
  clock_id :: string
  clock_start :: real
  clock_end :: real
  clock_agents :: real
  clock_timestamp :: string
  clock_prediction :: string

text \<open>\<open>x or default\<close> for an optional string.\<close>

definition or_else :: "string option \<Rightarrow> string \<Rightarrow> string" where
  "or_else x dflt = (case x of None \<Rightarrow> dflt | Some s \<Rightarrow> if s = [] then dflt else s)"

definition run_agent_analysis ::
  "world \<Rightarrow> ProductionMLPipeline \<Rightarrow> string dict \<Rightarrow> pyval dict option" where
  "run_agent_analysis w self startup_data =
     (case agent_orchestrator self of
        None \<Rightarrow> None
      | Some analyze \<Rightarrow>
          (case analyze startup_data of
             Raised \<Rightarrow> None
           | Returned agent_results \<Rightarrow>
               Some [(''agent_results'', Str agent_results),
                     (''processing_time'', Num (clock_agents w))]))"

text \<open>The prediction that stands in when \<open>predict_startup_success\<close> raises.\<close>

definition error_prediction :: "string \<Rightarrow> ProductionPredictionResult" where
  "error_prediction now =
     \<lparr>success_probability = 5 / 10, success_category = ''Unknown'',
      confidence_interval = (3 / 10, 7 / 10), investment_recommendation = ''WATCH'',
      market_score = 50, team_score = 50, product_score = 50, business_model_score = 50,
      financial_score = 50, risk_score = 50, key_strengths = [],
      ProductionPredictionResult.key_risks = [],
      improvement_areas = [''Unable to complete analysis''], model_confidence = 3 / 10,
      prediction_timestamp = now, ProductionPredictionResult.model_version = ''error'',
      feature_count = 0\<rparr>"

definition run_ml_prediction ::
  "world \<Rightarrow> ProductionEnsemblePredictor \<Rightarrow> pyval dict
     \<Rightarrow> ProductionPredictionResult \<times> ProductionEnsemblePredictor" where
  "run_ml_prediction w predictor features =
     (case predict_startup_success (ml_lib w) (clock_prediction w) predictor features of
        (Some prediction, predictor') \<Rightarrow> (prediction, predictor')
      | (None, predictor') \<Rightarrow> (error_prediction (clock_prediction w), predictor'))"

text \<open>The prediction that stands in when the ML step is switched off.\<close>

definition skipped_prediction :: "string \<Rightarrow> string \<Rightarrow> nat \<Rightarrow> ProductionPredictionResult" where
  "skipped_prediction now ver n =
     \<lparr>success_probability = 5 / 10, success_category = ''Analysis Skipped'',
      confidence_interval = (4 / 10, 6 / 10), investment_recommendation = ''WATCH'',
      market_score = 50, team_score = 50, product_score = 50, business_model_score = 50,
      financial_score = 50, risk_score = 50, key_strengths = [],
      ProductionPredictionResult.key_risks = [],
      improvement_areas = [], model_confidence = 5 / 10,
      prediction_timestamp = now, ProductionPredictionResult.model_version = ver,
      feature_count = n\<rparr>"

text \<open>
  \<open>combine_analysis_results\<close>.  A data object is always true in \<open>if pdf_data:\<close>, so
  only \<open>None\<close> is skipped.  \<open>None\<close> as result is the \<open>TypeError\<close> of \<open>sum\<close> on a
  confidence that is not a number.
\<close>

definition combine_analysis_results ::
  "ProductionPredictionResult \<Rightarrow> ExtractedFinancialData option \<Rightarrow> pyval dict option
     \<Rightarrow> (real \<times> real) option" where
  "combine_analysis_results prediction pdf agent =
     (let confidence_scores = [Num (model_confidence prediction)] @
            (case pdf of None \<Rightarrow> [] | Some d \<Rightarrow> [Num (extraction_confidence d)]) @
            (case agent of
               None \<Rightarrow> []
             | Some a \<Rightarrow> (if a \<noteq> [] then (case map_of a ''confidence'' of None \<Rightarrow> [] | Some c \<Rightarrow> [c])
                          else []));
          completeness_scores = (case pdf of None \<Rightarrow> [] | Some d \<Rightarrow> [completeness_score d])
      in if list_all is_number confidence_scores then
           Some (sum_list (map (\<lambda>v. case v of Num x \<Rightarrow> x | Str s \<Rightarrow> 0) confidence_scores)
                   / real (length confidence_scores),
                 if completeness_scores \<noteq> []
                 then sum_list completeness_scores / real (length completeness_scores)
                 else 5 / 10)
         else None)"

text \<open>
  The two dictionaries a call can write to: the caller's \<open>manual_data\<close> object and
  the dictionary that \<open>{}\<close> creates.  \<open>ml_features\<close> is a reference to one of them.
\<close>

datatype ref = Manual | Local

record store =
  manual :: "pyval dict"
  local :: "pyval dict"

fun deref :: "store \<Rightarrow> ref \<Rightarrow> pyval dict" where
  "deref s Manual = manual s"
| "deref s Local = local s"

fun update_ref :: "ref \<Rightarrow> pyval dict \<Rightarrow> store \<Rightarrow> store" where
  "update_ref Manual other s = s\<lparr>manual := update_all other (manual s)\<rparr>"
| "update_ref Local other s = s\<lparr>local := update_all other (local s)\<rparr>"

text \<open>
  The identity entries that \<open>analyze_startup\<close> writes into \<open>ml_features\<close> first:
  \<open>company_name\<close>, \<open>industry or 'Technology'\<close> and \<open>description or ''\<close>.
\<close>

definition identity_entries :: "ProductionAnalysisInput \<Rightarrow> pyval dict" where
  "identity_entries inp =
     [(''company_name'', Str (ProductionAnalysisInput.company_name inp)),
      (''industry'', Str (or_else (industry inp) ''Technology'')),
      (''description'', Str (or_else (description inp) ''''))]"

text \<open>
  The first part of \<open>analyze_startup\<close>, up to the end of step 1: the reference
  \<open>ml_features\<close>, the store, the extracted data and the components used so far.
  \<open>manual_data or {}\<close> is the caller's dictionary only when it is not empty.
\<close>

definition collect_features ::
  "world \<Rightarrow> ProductionAnalysisInput
     \<Rightarrow> ref \<times> store \<times> ExtractedFinancialData option \<times> string list" where
  "collect_features w input_data =
     (let s0 = \<lparr>manual = (case manual_data input_data of None \<Rightarrow> [] | Some d \<Rightarrow> d), local = []\<rparr>;
          ml_features = (case manual_data input_data of
                           None \<Rightarrow> Local
                         | Some d \<Rightarrow> if d \<noteq> [] then Manual else Local);
          s1 = update_ref ml_features (identity_entries input_data) s0
      in if use_pdf_extraction input_data \<and> or_else (pdf_path input_data) [] \<noteq> [] then
           (let (data, pdf_features) =
                  extract_features_from_pdf (pdf_lib w) (or_else (pdf_path input_data) [])
            in (ml_features, update_ref ml_features pdf_features s1, Some data, [''PDF_EXTRACTION'']))
         else (ml_features, s1, None, []))"

text \<open>
  \<open>analyze_startup\<close>: the result (\<open>None\<close> if the call raises), the caller's
  \<open>manual_data\<close> dictionary after the call, and the pipeline object after the call.
\<close>

definition analyze_startup ::
  "world \<Rightarrow> ProductionMLPipeline \<Rightarrow> ProductionAnalysisInput
     \<Rightarrow> ProductionAnalysisResult option \<times> pyval dict option \<times> ProductionMLPipeline" where
  "analyze_startup w self input_data =
     (let ident = or_else (ProductionAnalysisInput.analysis_id input_data) (clock_id w);
          (ml_features, s, data, components1) = collect_features w input_data;
          (agent, components2) =
            (if use_ai_agents input_data \<and> AGENTS_AVAILABLE w then
               (case StartupData
                       [(''company_name'', ProductionAnalysisInput.company_name input_data),
                        (''industry'', or_else (industry input_data) ''Technology''),
                        (''description'', or_else (description input_data) '''')] of
                  None \<Rightarrow> (None, components1)
                | Some startup_data \<Rightarrow>
                    (run_agent_analysis w self startup_data, components1 @ [''AI_AGENTS'']))
             else (None, components1));
          (prediction, predictor, components3) =
            (if use_ml_prediction input_data then
               (let (p, predictor') = run_ml_prediction w (ml_predictor self) (deref s ml_features)
                in (p, predictor', components2 @ [''ML_PREDICTION'']))
             else (skipped_prediction (clock_timestamp w) (version self)
                     (length (deref s ml_features)),
                   ml_predictor self, components2));
          processing_time = clock_end w - clock_start w;
          self' = self\<lparr>ml_predictor := predictor,
                       analysis_count := analysis_count self + 1,
                       total_processing_time := total_processing_time self + processing_time\<rparr>;
          manual_after = (case manual_data input_data of None \<Rightarrow> None | Some d \<Rightarrow> Some (manual s))
      in case combine_analysis_results prediction data agent of
           None \<Rightarrow> (None, manual_after, self\<lparr>ml_predictor := predictor\<rparr>)
         | Some (confidence, completeness) \<Rightarrow>
             (Some \<lparr>analysis_id = ident,
                    company_name = ProductionAnalysisInput.company_name input_data,
                    timestamp = clock_timestamp w,
                    ml_prediction = prediction,
                    pdf_data = data,
                    agent_analysis = agent,
                    processing_time_seconds = processing_time,
                    pipeline_version = version self,
                    components_used = components3,
                    overall_confidence = confidence,
                    data_completeness = completeness\<rparr>,
              manual_after, self'))"

text \<open>\<open>ProductionMLPipeline()\<close> with a given agent orchestrator, if any.\<close>

definition new_pipeline :: "(string dict \<Rightarrow> string outcome) option \<Rightarrow> ProductionMLPipeline" where
  "new_pipeline orchestrator =
     \<lparr>version = ''2.0.0'', ml_predictor = new_predictor ''2.0.0'',
      agent_orchestrator = orchestrator, analysis_count = 0, total_processing_time = 0\<rparr>"

subsection \<open>Concrete inputs\<close>

text \<open>
  \<open>ProductionAnalysisInput(company_name, pdf_path=..., manual_data=...)\<close> with the
  defaults of the dataclass for the other fields.
\<close>

definition analysis_input ::
  "string \<Rightarrow> string option \<Rightarrow> pyval dict option \<Rightarrow> ProductionAnalysisInput" where
  "analysis_input name path manual_dict =
     \<lparr>ProductionAnalysisInput.company_name = name, industry = None, description = None,
      pdf_path = path, audio_path = None, video_path = None, manual_data = manual_dict,
      use_pdf_extraction = True, use_ai_agents = True, use_ml_prediction = True,
      ProductionAnalysisInput.analysis_id = None, ProductionAnalysisInput.timestamp = None\<rparr>"

text \<open>A file system without the file: both readers raise when they open the path.\<close>

definition no_file :: pdf_libraries where
  "no_file = \<lparr>plumber = (\<lambda>p. Raised), pypdf = (\<lambda>p. Raised), analysis = (\<lambda>p t. Raised)\<rparr>"

text \<open>
  A one-page deck with the text \<open>revenue: $1M\<close>, for which the extraction finds the
  current revenue 1000000 and nothing else.
\<close>

definition revenue_deck :: pdf_libraries where
  "revenue_deck =
     \<lparr>plumber = (\<lambda>p. Returned [Returned (Some ''revenue: $1M'')]),
      pypdf = (\<lambda>p. Raised),
      analysis = (\<lambda>p t. Returned (empty_data\<lparr>current_revenue := Some 1000000,
                                                extraction_confidence := 9 / 10,
                                                completeness_score := 1 / 6\<rparr>))\<rparr>"

text \<open>A world with the given PDF library, in which every fitted classifier returns 1/2.\<close>

definition a_world :: "pdf_libraries \<Rightarrow> world" where
  "a_world lib =
     \<lparr>pdf_lib = lib, ml_lib = constant_sklearn (1 / 2), AGENTS_AVAILABLE = True,
      clock_id = ''analysis_0'', clock_start = 0, clock_end = 1, clock_agents = 0,
      clock_timestamp = ''2024-01-01T00:00:00'', clock_prediction = ''2024-01-01T00:00:00''\<rparr>"

section \<open>Properties of the numeric parser\<close>

lemma is_digit_float_char: "is_digit c \<Longrightarrow> is_float_char c"
  by (auto simp: is_digit_def is_float_char_def)

lemma fc_dot: "is_float_char (CHR ''.'')" by (simp add: is_float_char_def)
lemma fc_us: "is_float_char (CHR ''_'')" by (simp add: is_float_char_def)
lemma fc_e: "is_float_char (CHR ''e'')" "is_float_char (CHR ''E'')" by (simp_all add: is_float_char_def)
lemma fc_sign: "is_float_char (CHR ''+'')" "is_float_char (CHR ''-'')" by (simp_all add: is_float_char_def)
lemmas fc = fc_dot fc_us fc_e fc_sign is_digit_float_char

lemma digit_run_chars:
  "digit_run s = (ds, r) \<Longrightarrow> \<exists>p. s = p @ r \<and> (\<forall>c\<in>set p. is_float_char c)"
proof (induction s arbitrary: ds r rule: digit_run.induct)
  case 1
  then show ?case by simp
next
  case (2 c)
  then show ?case by (auto simp: is_digit_float_char split: if_splits)
next
  case (3 c d cs)
  show ?case
  proof (cases "is_digit c")
    case True
    obtain ds' r' where dr: "digit_run (d # cs) = (ds', r')" by (cases "digit_run (d # cs)")
    from "3.IH"(1)[OF True dr] obtain p where p: "d # cs = p @ r'" "\<forall>c\<in>set p. is_float_char c" by blast
    from "3.prems" True dr have "r = r'" by simp
    with p True show ?thesis
      by (intro exI[of _ "c # p"]) (simp add: is_digit_float_char)
  next
    case False
    show ?thesis
    proof (cases "c = CHR ''_'' \<and> is_digit d")
      case True
      obtain ds' r' where dr: "digit_run cs = (ds', r')" by (cases "digit_run cs")
      from "3.IH"(2)[OF False True dr] obtain p where p: "cs = p @ r'" "\<forall>c\<in>set p. is_float_char c" by blast
      from "3.prems" False True dr have "r = r'" by simp
      with p True show ?thesis
        by (intro exI[of _ "c # d # p"]) (simp add: fc)
    next
      case F2: False
      with False "3.prems" have "r = c # d # cs" by auto
      then show ?thesis by (intro exI[of _ "[]"]) simp
    qed
  qed
qed

lemma digitpart_chars:
  "digitpart s = Some (ds, r) \<Longrightarrow> \<exists>p. s = p @ r \<and> (\<forall>c\<in>set p. is_float_char c)"
proof -
  assume a: "digitpart s = Some (ds, r)"
  then obtain c cs where s: "s = c # cs" and c: "is_digit c"
    by (auto simp: digitpart_def split: list.splits if_splits)
  obtain ds' r' where dr: "digit_run cs = (ds', r')" by (cases "digit_run cs")
  with a s c have "r = r'" by (simp add: digitpart_def)
  from digit_run_chars[OF dr] obtain p where "cs = p @ r'" "\<forall>c\<in>set p. is_float_char c" by blast
  with s c \<open>r = r'\<close> show ?thesis
    by (intro exI[of _ "c # p"]) (simp add: is_digit_float_char)
qed

lemma number_chars:
  assumes "number s = Some (ip, fp, r)"
  shows "\<exists>p. s = p @ r \<and> (\<forall>c\<in>set p. is_float_char c)"
proof (cases "digitpart s")
  case None
  with assms obtain r2 where s: "s = CHR ''.'' # r2" and d: "digitpart r2 = Some (fp, r)"
    by (auto simp: number_def split: list.splits if_splits option.splits)
  from digitpart_chars[OF d] obtain p where "r2 = p @ r" "\<forall>c\<in>set p. is_float_char c" by blast
  with s show ?thesis by (intro exI[of _ "CHR ''.'' # p"]) (simp add: fc)
next
  case (Some a)
  obtain ip' r1 where a: "a = (ip', r1)" by (cases a)
  from digitpart_chars Some a obtain p where p: "s = p @ r1" "\<forall>c\<in>set p. is_float_char c" by blast
  show ?thesis
  proof (cases r1)
    case Nil
    with assms Some a have "r = []" by (simp add: number_def)
    with p Nil show ?thesis by auto
  next
    case (Cons c r2)
    show ?thesis
    proof (cases "c = CHR ''.''")
      case False
      with assms Some a Cons have "r = r1" by (simp add: number_def)
      with p show ?thesis by auto
    next
      case True
      show ?thesis
      proof (cases "digitpart r2")
        case None
        with assms Some a Cons True have "r = r2" by (simp add: number_def)
        with p Cons True show ?thesis
          by (intro exI[of _ "p @ [c]"]) (auto simp: fc)
      next
        case (Some b)
        obtain fp' r3 where b: "b = (fp', r3)" by (cases b)
        from digitpart_chars Some b obtain q where q: "r2 = q @ r3" "\<forall>c\<in>set q. is_float_char c" by blast
        from assms \<open>digitpart s = Some a\<close> a Cons True Some b have "r = r3" by (simp add: number_def)
        with p q Cons True show ?thesis
          by (intro exI[of _ "p @ c # q"]) (auto simp: fc)
      qed
    qed
  qed
qed

lemma sign_chars: "sign s = (neg, r) \<Longrightarrow> \<exists>p. s = p @ r \<and> (\<forall>c\<in>set p. is_float_char c)"
  by (cases s) (auto simp: sign_def fc split: if_splits intro: exI[of _ "[]"])

lemma exponent_chars:
  assumes "exponent s = Some (e, r)"
  shows "\<exists>p. s = p @ r \<and> (\<forall>c\<in>set p. is_float_char c)"
proof (cases s)
  case Nil
  with assms show ?thesis by (simp add: exponent_def)
next
  case (Cons c cs)
  show ?thesis
  proof (cases "c = CHR ''e'' \<or> c = CHR ''E''")
    case False
    with assms Cons have "r = s" by (auto simp: exponent_def)
    then show ?thesis by (intro exI[of _ "[]"]) simp
  next
    case True
    obtain neg r1 where sg: "sign cs = (neg, r1)" by (cases "sign cs")
    from sign_chars[OF sg] obtain p where p: "cs = p @ r1" "\<forall>c\<in>set p. is_float_char c" by blast
    from assms Cons True sg obtain ds where d: "digitpart r1 = Some (ds, r)"
      by (auto simp: exponent_def split: option.splits)
    from digitpart_chars[OF d] obtain q where q: "r1 = q @ r" "\<forall>c\<in>set q. is_float_char c" by blast
    from p q Cons True show ?thesis
      by (intro exI[of _ "c # p @ q"]) (auto simp: fc)
  qed
qed

lemma floatnumber_chars:
  assumes "floatnumber s = Some x"
  shows "\<forall>c\<in>set s. is_float_char c"
proof -
  from assms obtain ip fp r where n: "number s = Some (ip, fp, r)"
    by (auto simp: floatnumber_def split: option.splits)
  with assms obtain e where ex: "exponent r = Some (e, [])"
    by (auto simp: floatnumber_def split: option.splits if_splits)
  from number_chars[OF n] exponent_chars[OF ex] show ?thesis by auto
qed



lemma upper_char_K: "upper_char c = CHR ''K'' \<Longrightarrow> c = CHR ''K'' \<or> c = CHR ''k''"
  by (simp add: upper_char_def split: if_splits)

lemma upper_char_M: "upper_char c = CHR ''M'' \<Longrightarrow> c = CHR ''M'' \<or> c = CHR ''m''"
  by (simp add: upper_char_def split: if_splits)

lemma upper_char_B: "upper_char c = CHR ''B'' \<Longrightarrow> c = CHR ''B'' \<or> c = CHR ''b''"
  by (simp add: upper_char_def split: if_splits)

lemma suffix_not_float_char: "c \<in> set ''KMBkmb'' \<Longrightarrow> \<not> is_float_char c"
  by (auto simp: is_float_char_def)

lemma suffix_not_space: "c \<in> set ''KMBkmb'' \<Longrightarrow> \<not> is_space c"
  by (auto simp: is_space_def)

lemma lower_char_suffixes:
  "lower_char (CHR ''K'') = CHR ''k''" "lower_char (CHR ''M'') = CHR ''m''"
  "lower_char (CHR ''B'') = CHR ''b''" "lower_char (CHR ''k'') = CHR ''k''"
  "lower_char (CHR ''m'') = CHR ''m''" "lower_char (CHR ''b'') = CHR ''b''"
  by (simp_all add: lower_char_def)

lemma suffix_lower:
  assumes "c \<in> set ''KMBkmb''"
  shows "lower_char c \<in> set ''kmb''"
proof -
  from assms consider "c = CHR ''K''" | "c = CHR ''M''" | "c = CHR ''B''"
    | "c = CHR ''k''" | "c = CHR ''m''" | "c = CHR ''b''" by auto
  then show ?thesis by cases (simp_all add: lower_char_suffixes)
qed

lemma strip_last:
  assumes "v \<noteq> []" "\<not> is_space (last v)"
  shows "strip v \<noteq> [] \<and> last (strip v) = last v"
proof -
  let ?u = "dropWhile is_space v"
  from assms have "last v \<in> set v" by simp
  with assms have u: "?u \<noteq> []" by (auto simp: dropWhile_eq_Nil_conv)
  have lu: "last ?u = last v"
    by (metis u assms(1) last_appendR takeWhile_dropWhile_id)
  from u lu assms have "\<not> is_space (hd (rev ?u))" by (simp add: hd_rev)
  with u have "dropWhile is_space (rev ?u) = rev ?u"
    by (cases "rev ?u") auto
  then have "strip v = ?u" by (simp add: strip_def)
  with u lu show ?thesis by simp
qed

lemma sign_last:
  assumes "sign u = (neg, r)" "r \<noteq> []"
  shows "last r = last u"
  using assms by (cases u) (auto simp: sign_def split: if_splits)

lemma floatnumber_Nil: "floatnumber [] = None"
  by (simp add: floatnumber_def number_def digitpart_def)

lemma py_float_suffix:
  assumes "v \<noteq> []" "last v \<in> set ''KMBkmb''"
  shows "py_float v = None"
proof -
  from assms(2) have ns: "\<not> is_space (last v)" by (rule suffix_not_space)
  from strip_last[OF assms(1) ns] have st: "strip v \<noteq> []" "last (strip v) = last v" by simp_all
  obtain neg r where sg: "sign (strip v) = (neg, r)" by (cases "sign (strip v)")
  show ?thesis
  proof (cases "r = []")
    case True
    with sg show ?thesis by (simp add: py_float_def lower_def floatnumber_Nil)
  next
    case False
    with sg st have lr: "last r = last v" by (simp add: sign_last)
    from False have ll: "last (lower r) = lower_char (last r)" by (simp add: lower_def last_map)
    from assms(2) lr have "last r \<in> set ''KMBkmb''" by simp
    from suffix_lower[OF this] ll have lk: "last (lower r) \<in> set ''kmb''" by simp
    have n1: "lower r \<noteq> ''inf''"
    proof
      assume "lower r = ''inf''"
      then have "last (lower r) = CHR ''f''" by simp
      with lk show False by simp
    qed
    have n2: "lower r \<noteq> ''infinity''"
    proof
      assume "lower r = ''infinity''"
      then have "last (lower r) = CHR ''y''" by simp
      with lk show False by simp
    qed
    have n3: "lower r \<noteq> ''nan''"
    proof
      assume "lower r = ''nan''"
      then have "last (lower r) = CHR ''n''" by simp
      with lk show False by simp
    qed
    have "floatnumber r = None"
    proof (rule ccontr)
      assume "floatnumber r \<noteq> None"
      then obtain x where "floatnumber r = Some x" by auto
      from floatnumber_chars[OF this] False have "is_float_char (last r)" by simp
      with lr have "is_float_char (last v)" by simp
      with suffix_not_float_char[OF assms(2)] show False by simp
    qed
    with sg n1 n2 n3 show ?thesis by (simp add: py_float_def)
  qed
qed

lemma endswith_upper: "endswith (upper v) c = (v \<noteq> [] \<and> upper_char (last v) = c)"
  by (auto simp: endswith_def upper_def last_map)

lemma suffix_loop_scale:
  "suffix_loop multipliers v =
     (case suffix_scale v of
        Some m \<Rightarrow> (case py_float (butlast v) of Some n \<Rightarrow> Some (fmul n m) | None \<Rightarrow> None)
      | None \<Rightarrow> None)"
  by (simp add: multipliers_def suffix_scale_def endswith_upper split: option.splits)

lemma suffix_scale_last: "suffix_scale v = Some m \<Longrightarrow> v \<noteq> [] \<and> last v \<in> set ''KMBkmb''"
  by (auto simp: suffix_scale_def split: if_splits dest: upper_char_K upper_char_M upper_char_B)

lemma parse_refines: "parse_financial_value s = parse_value_spec s"
proof (cases "suffix_scale (clean s)")
  case None
  then show ?thesis
    by (simp add: parse_financial_value_def parse_value_spec_def suffix_loop_scale)
next
  case (Some m)
  from suffix_scale_last[OF Some] have "py_float (clean s) = None" by (simp add: py_float_suffix)
  with Some show ?thesis
    by (simp add: parse_financial_value_def parse_value_spec_def suffix_loop_scale Let_def split: option.splits)
qed

lemmas parser_eval =
  parse_financial_value_def clean_def strip_def is_space_def multipliers_def endswith_def
  upper_def upper_char_def py_float_def sign_def lower_def lower_char_def floatnumber_def
  number_def digitpart_def is_digit_def exponent_def scale10_def digits_val_def

section \<open>Properties of the regex extraction\<close>

lemma np_median_mset: "mset vs = mset ws \<Longrightarrow> np_median vs = np_median ws"
proof -
  assume a: "mset vs = mset ws"
  then have s: "set vs = set ws" by (rule mset_eq_setD)
  from a have e: "(vs = []) = (ws = [])" by (metis mset_zero_iff)
  from a have "sort vs = sort ws" by (simp add: properties_for_sort)
  with s e show ?thesis by (simp add: np_median_def)
qed

lemma map_filter_app: "List.map_filter f (xs @ ys) = List.map_filter f xs @ List.map_filter f ys"
  by (induction xs) (auto split: option.splits)

lemma match_loop_eq:
  "match_loop ms vs = vs @ filter truthy (List.map_filter parse_financial_value ms)"
  by (induction ms arbitrary: vs) (auto split: option.splits)

lemma pattern_loop_eq:
  "pattern_loop ps text vs = vs @ nonzero_values ps text"
  by (induction ps arbitrary: vs)
     (auto simp: nonzero_values_def parsed_values_def all_matches_def match_loop_eq map_filter_app)

lemma metric_loop_lookup:
  "distinct (map fst tbl) \<Longrightarrow>
   map_of (metric_loop tbl text metrics) k =
     (case map_of tbl k of
        None \<Rightarrow> map_of metrics k
      | Some ps \<Rightarrow> if nonzero_values ps text = [] then map_of metrics k
                   else Some (np_median (nonzero_values ps text)))"
proof (induction tbl arbitrary: metrics)
  case Nil
  then show ?case by simp
next
  case (Cons a tbl)
  obtain mt ps where a: "a = (mt, ps)" by (cases a)
  from Cons.prems a have d: "distinct (map fst tbl)" and n: "mt \<notin> fst ` set tbl" by auto
  from n have none: "map_of tbl mt = None" by (simp add: map_of_eq_None_iff)
  show ?case
    using Cons.IH[OF d] none
    by (auto simp: a pattern_loop_eq Let_def update_conv' split: option.splits)
qed

lemma financial_patterns_distinct: "distinct (map fst financial_patterns)"
  by (simp add: financial_patterns_def)

lemma extract_lookup:
  "map_of (extract_financial_metrics text) k =
     (case map_of financial_patterns k of
        None \<Rightarrow> None
      | Some ps \<Rightarrow> if nonzero_values ps text = [] then None
                   else Some (np_median (nonzero_values ps text)))"
  by (simp add: extract_financial_metrics_def metric_loop_lookup[OF financial_patterns_distinct]
           split: option.splits)

section \<open>The extraction on the example texts\<close>

lemma patterns_of_revenue: "patterns_of ''revenue'' = revenue_patterns"
  by (simp add: patterns_of_def financial_patterns_def)

lemma patterns_of_lookup:
  "map_of financial_patterns k = None \<Longrightarrow> patterns_of k = []"
  "map_of financial_patterns k = Some ps \<Longrightarrow> patterns_of k = ps"
  by (simp_all add: patterns_of_def)

lemma nonzero_values_Nil: "nonzero_values [] text = []"
  by (simp add: nonzero_values_def parsed_values_def all_matches_def)

lemma extract_entry:
  "map_of (extract_financial_metrics text) k =
     (if nonzero_values (patterns_of k) text = [] then None
      else Some (np_median (nonzero_values (patterns_of k) text)))"
  by (cases "map_of financial_patterns k")
     (simp_all add: extract_lookup patterns_of_lookup nonzero_values_Nil)

lemma truthy_iff: "truthy v = (v \<noteq> Fin 0)"
  by (cases v) auto

lemma parse_examples:
  "parse_financial_value ''$1M'' = Some (Fin 1000000)"
  "parse_financial_value ''$2M'' = Some (Fin 2000000)"
  "parse_financial_value ''$3M'' = Some (Fin 3000000)"
  "parse_financial_value ''$0'' = Some (Fin 0)"
  "parse_financial_value ''$0,'' = Some (Fin 0)"
  "parse_financial_value ''1'' = Some (Fin 1)"
  "parse_financial_value ''2'' = Some (Fin 2)"
  "parse_financial_value ''7'' = Some (Fin 7)"
  "parse_financial_value ''9'' = Some (Fin 9)"
  by (simp_all add: parser_eval)

lemmas values_eval = extract_entry patterns_of_revenue nonzero_values_def parsed_values_def
lemmas median_eval = np_median_def less_eq_pyfloat_def

lemma mentions_1: "all_matches revenue_patterns (join_lines [''revenue: $1M'', ''revenue: $3M'', ''revenue: $2M'']) = [''$1M'', ''$3M'', ''$2M'', ''$1M'', ''$3M'']"
  by code_simp

lemma revenue_1: "map_of (extract_financial_metrics (join_lines [''revenue: $1M'', ''revenue: $3M'', ''revenue: $2M''])) ''revenue'' = Some (Fin 2000000)"
  unfolding extract_entry patterns_of_revenue nonzero_values_def parsed_values_def mentions_1
  by (simp add: parse_examples median_eval)

lemma mentions_2: "all_matches revenue_patterns (join_lines [''revenue: $1M'', ''revenue: $2M'', ''revenue: $3M'']) = [''$1M'', ''$2M'', ''$3M'', ''$1M'', ''$2M'']"
  by code_simp

lemma revenue_2: "map_of (extract_financial_metrics (join_lines [''revenue: $1M'', ''revenue: $2M'', ''revenue: $3M''])) ''revenue'' = Some (Fin 2000000)"
  unfolding extract_entry patterns_of_revenue nonzero_values_def parsed_values_def mentions_2
  by (simp add: parse_examples median_eval)

lemma mentions_3: "all_matches revenue_patterns (join_lines [''revenue: $3M'', ''revenue: $1M'', ''revenue: $2M'']) = [''$3M'', ''$1M'', ''$2M'', ''$3M'', ''$1M'']"
  by code_simp

lemma revenue_3: "map_of (extract_financial_metrics (join_lines [''revenue: $3M'', ''revenue: $1M'', ''revenue: $2M''])) ''revenue'' = Some (Fin 2000000)"
  unfolding extract_entry patterns_of_revenue nonzero_values_def parsed_values_def mentions_3
  by (simp add: parse_examples median_eval)

lemma mentions_4: "all_matches revenue_patterns (join_lines [''revenue: $3M'', ''revenue: $2M'', ''revenue: $1M'']) = [''$3M'', ''$2M'', ''$1M'', ''$3M'', ''$2M'']"
  by code_simp

lemma revenue_4: "map_of (extract_financial_metrics (join_lines [''revenue: $3M'', ''revenue: $2M'', ''revenue: $1M''])) ''revenue'' = Some (Fin 2000000)"
  unfolding extract_entry patterns_of_revenue nonzero_values_def parsed_values_def mentions_4
  by (simp add: parse_examples median_eval)

lemma mentions_5: "all_matches revenue_patterns (join_lines [''revenue: $2M'', ''revenue: $1M'', ''revenue: $3M'']) = [''$2M'', ''$1M'', ''$3M'', ''$2M'', ''$1M'']"
  by code_simp

lemma revenue_5: "map_of (extract_financial_metrics (join_lines [''revenue: $2M'', ''revenue: $1M'', ''revenue: $3M''])) ''revenue'' = Some (Fin 2000000)"
  unfolding extract_entry patterns_of_revenue nonzero_values_def parsed_values_def mentions_5
  by (simp add: parse_examples median_eval)

lemma mentions_6: "all_matches revenue_patterns (join_lines [''revenue: $2M'', ''revenue: $3M'', ''revenue: $1M'']) = [''$2M'', ''$3M'', ''$1M'', ''$2M'', ''$3M'']"
  by code_simp

lemma revenue_6: "map_of (extract_financial_metrics (join_lines [''revenue: $2M'', ''revenue: $3M'', ''revenue: $1M''])) ''revenue'' = Some (Fin 2000000)"
  unfolding extract_entry patterns_of_revenue nonzero_values_def parsed_values_def mentions_6
  by (simp add: parse_examples median_eval)

lemma matches_zero_sales: "all_matches revenue_patterns ''revenue: $0, sales: $2M'' = [''$0,'', ''$2M'']"
  by code_simp

lemma matches_ascending: "all_matches revenue_patterns ''revenue 1 revenue 2 revenue 7 revenue 9'' = [''1'', ''2'', ''7'', ''9'', ''1'', ''2'', ''7'']"
  by code_simp

lemma matches_descending: "all_matches revenue_patterns ''revenue 9 revenue 7 revenue 2 revenue 1'' = [''9'', ''7'', ''2'', ''1'', ''9'', ''7'', ''2'']"
  by code_simp

lemma matches_zero: "all_matches revenue_patterns ''revenue: $0'' = [''$0'']"
  by code_simp

section \<open>Properties of the predictor\<close>

lemmas score_defs = calculate_market_score_def calculate_team_score_def calculate_product_score_def
  calculate_business_model_score_def calculate_financial_score_def calculate_risk_score_def
  get_key_strengths_def get_key_risks_def get_improvement_areas_def

lemma num_number: "is_number v \<Longrightarrow> num v = Some (the_num v)"
  by (cases v) auto

lemma mul_float_number: "is_number v \<Longrightarrow> mul_float v c = Some (Num (the_num v * c))"
  by (cases v) auto

lemma mul_int_number: "is_number (mul_int v n) = is_number v"
  by (cases v) auto

lemma get_number:
  "(case map_of d k of Some (Str s) \<Rightarrow> False | _ \<Rightarrow> True) \<Longrightarrow> is_number dflt \<Longrightarrow> is_number (get d k dflt)"
  by (auto simp: get_def split: option.splits pyval.splits)

lemma np_std_nonneg: "0 \<le> np_std xs"
proof -
  have "0 \<le> sum_list (map (\<lambda>x. (x - np_mean xs)\<^sup>2) xs)"
    by (rule sum_list_nonneg) auto
  then show ?thesis by (simp add: np_std_def np_mean_def)
qed

lemma numeric_get:
  assumes "numeric_data d" "k \<in> set numeric_keys" "is_number dflt"
  shows "is_number (get d k dflt)"
proof -
  from assms(1,2) have "case map_of d k of Some (Str s) \<Rightarrow> False | _ \<Rightarrow> True"
    by (simp add: numeric_data_def list_all_iff)
  then show ?thesis using assms(3) by (rule get_number)
qed

lemma numeric_features:
  assumes "numeric_data d"
  shows "\<exists>f. extract_features_from_data d = Some f
     \<and> calculate_market_score f \<noteq> None \<and> calculate_team_score f \<noteq> None
     \<and> calculate_product_score f \<noteq> None \<and> calculate_business_model_score f \<noteq> None
     \<and> calculate_financial_score f \<noteq> None \<and> calculate_risk_score f \<noteq> None
     \<and> get_key_strengths f \<noteq> None \<and> get_key_risks f \<noteq> None
     \<and> get_improvement_areas f \<noteq> None"
proof -

  have k1: "\<And>v. is_number v \<Longrightarrow> is_number (get d ''revenue'' v)"
    by (rule numeric_get[OF assms]) (simp_all add: numeric_keys_def)

  have k2: "\<And>v. is_number v \<Longrightarrow> is_number (get d ''runway_months'' v)"
    by (rule numeric_get[OF assms]) (simp_all add: numeric_keys_def)

  have k3: "\<And>v. is_number v \<Longrightarrow> is_number (get d ''gross_margin'' v)"
    by (rule numeric_get[OF assms]) (simp_all add: numeric_keys_def)

  have k4: "\<And>v. is_number v \<Longrightarrow> is_number (get d ''market_size'' v)"
    by (rule numeric_get[OF assms]) (simp_all add: numeric_keys_def)

  have k5: "\<And>v. is_number v \<Longrightarrow> is_number (get d ''market_growth_rate'' v)"
    by (rule numeric_get[OF assms]) (simp_all add: numeric_keys_def)

  have k6: "\<And>v. is_number v \<Longrightarrow> is_number (get d ''competition_level'' v)"
    by (rule numeric_get[OF assms]) (simp_all add: numeric_keys_def)

  have k7: "\<And>v. is_number v \<Longrightarrow> is_number (get d ''competitive_advantage'' v)"
    by (rule numeric_get[OF assms]) (simp_all add: numeric_keys_def)

  have k8: "\<And>v. is_number v \<Longrightarrow> is_number (get d ''founder_experience'' v)"
    by (rule numeric_get[OF assms]) (simp_all add: numeric_keys_def)

  have k9: "\<And>v. is_number v \<Longrightarrow> is_number (get d ''team_technical_score'' v)"
    by (rule numeric_get[OF assms]) (simp_all add: numeric_keys_def)

  have k10: "\<And>v. is_number v \<Longrightarrow> is_number (get d ''team_business_score'' v)"
    by (rule numeric_get[OF assms]) (simp_all add: numeric_keys_def)

  have k11: "\<And>v. is_number v \<Longrightarrow> is_number (get d ''advisor_quality'' v)"
    by (rule numeric_get[OF assms]) (simp_all add: numeric_keys_def)

  have k12: "\<And>v. is_number v \<Longrightarrow> is_number (get d ''product_readiness'' v)"
    by (rule numeric_get[OF assms]) (simp_all add: numeric_keys_def)

  have k13: "\<And>v. is_number v \<Longrightarrow> is_number (get d ''tech_differentiation'' v)"
    by (rule numeric_get[OF assms]) (simp_all add: numeric_keys_def)

  have k14: "\<And>v. is_number v \<Longrightarrow> is_number (get d ''user_traction'' v)"
    by (rule numeric_get[OF assms]) (simp_all add: numeric_keys_def)

  have k15: "\<And>v. is_number v \<Longrightarrow> is_number (get d ''pmf_score'' v)"
    by (rule numeric_get[OF assms]) (simp_all add: numeric_keys_def)

  have k16: "\<And>v. is_number v \<Longrightarrow> is_number (get d ''business_model_clarity'' v)"
    by (rule numeric_get[OF assms]) (simp_all add: numeric_keys_def)

  have k17: "\<And>v. is_number v \<Longrightarrow> is_number (get d ''revenue_model_strength'' v)"
    by (rule numeric_get[OF assms]) (simp_all add: numeric_keys_def)

  have k18: "\<And>v. is_number v \<Longrightarrow> is_number (get d ''scalability'' v)"
    by (rule numeric_get[OF assms]) (simp_all add: numeric_keys_def)

  have k19: "\<And>v. is_number v \<Longrightarrow> is_number (get d ''gtm_score'' v)"
    by (rule numeric_get[OF assms]) (simp_all add: numeric_keys_def)

  have k20: "\<And>v. is_number v \<Longrightarrow> is_number (get d ''market_risk'' v)"
    by (rule numeric_get[OF assms]) (simp_all add: numeric_keys_def)

  have k21: "\<And>v. is_number v \<Longrightarrow> is_number (get d ''tech_risk'' v)"
    by (rule numeric_get[OF assms]) (simp_all add: numeric_keys_def)

  have k22: "\<And>v. is_number v \<Longrightarrow> is_number (get d ''team_risk'' v)"
    by (rule numeric_get[OF assms]) (simp_all add: numeric_keys_def)

  have k23: "\<And>v. is_number v \<Longrightarrow> is_number (get d ''financial_risk'' v)"
    by (rule numeric_get[OF assms]) (simp_all add: numeric_keys_def)

  have k24: "\<And>v. is_number v \<Longrightarrow> is_number (get d ''regulatory_risk'' v)"
    by (rule numeric_get[OF assms]) (simp_all add: numeric_keys_def)

  have k25: "\<And>v. is_number v \<Longrightarrow> is_number (get d ''projected_revenue_y1'' v)"
    by (rule numeric_get[OF assms]) (simp_all add: numeric_keys_def)

  show ?thesis
    by (simp add: extract_features_from_data_def Let_def score_defs num_number mul_float_number mul_int_number k1 k2 k3 k4 k5 k6 k7 k8 k9 k10 k11 k12 k13 k14 k15 k16 k17 k18 k19 k20 k21 k22 k23 k24 k25)
qed


lemma predict_numeric:
  assumes nd: "numeric_data d"
    and q: "q = ensure_trained sk self"
    and e: "ensemble_model q = Some e"
    and sc: "feature_scaler q = Some sc"
    and range: "\<forall>X. 0 \<le> e X \<and> e X \<le> 1"
  shows "\<exists>r. predict_startup_success sk now self d = (Some r, q)
     \<and> 0 \<le> fst (confidence_interval r)
     \<and> fst (confidence_interval r) \<le> success_probability r
     \<and> success_probability r \<le> snd (confidence_interval r)
     \<and> snd (confidence_interval r) \<le> 1
     \<and> (success_category r, investment_recommendation r) =
         (if success_probability r \<ge> 7 / 10 then (''High Potential'', ''INVEST'')
          else if success_probability r \<ge> 4 / 10 then (''Medium Potential'', ''WATCH'')
          else (''Low Potential'', ''PASS''))"
proof -
  from numeric_features[OF nd] obtain f m t pr b fi rk st rs ar where
    f: "extract_features_from_data d = Some f"
    and s: "calculate_market_score f = Some m" "calculate_team_score f = Some t"
      "calculate_product_score f = Some pr" "calculate_business_model_score f = Some b"
      "calculate_financial_score f = Some fi" "calculate_risk_score f = Some rk"
      "get_key_strengths f = Some st" "get_key_risks f = Some rs"
      "get_improvement_areas f = Some ar"
    by auto
  define X where "X = sc (feature_row (feature_columns q) f)"
  define sd where "sd = np_std (map (\<lambda>(name, model). model X) (models q))"
  define r where "r =
     \<lparr>success_probability = e X,
      success_category = fst (categorize (e X)),
      confidence_interval = (max 0 (e X - 196 / 100 * sd), min 1 (e X + 196 / 100 * sd)),
      investment_recommendation = snd (categorize (e X)),
      market_score = m, team_score = t, product_score = pr, business_model_score = b,
      financial_score = fi, risk_score = rk, key_strengths = st,
      ProductionPredictionResult.key_risks = rs, improvement_areas = ar,
      model_confidence = 1 - sd, prediction_timestamp = now,
      ProductionPredictionResult.model_version = ProductionEnsemblePredictor.model_version q,
      feature_count = length (feature_columns q)\<rparr>"
  have p: "predict_startup_success sk now self d = (Some r, q)"
    unfolding predict_startup_success_def q[symmetric] Let_def
    by (simp add: f s e sc r_def X_def sd_def split: prod.splits)
  have sd0: "0 \<le> sd" by (simp add: sd_def np_std_nonneg)
  from range have e0: "0 \<le> e X" and e1: "e X \<le> 1" by auto
  have c: "(success_category r, investment_recommendation r) =
         (if success_probability r \<ge> 7 / 10 then (''High Potential'', ''INVEST'')
          else if success_probability r \<ge> 4 / 10 then (''Medium Potential'', ''WATCH'')
          else (''Low Potential'', ''PASS''))"
    by (simp add: r_def categorize_def)
  have i: "0 \<le> fst (confidence_interval r)" "fst (confidence_interval r) \<le> success_probability r"
    "success_probability r \<le> snd (confidence_interval r)" "snd (confidence_interval r) \<le> 1"
    using sd0 e0 e1 by (simp_all add: r_def)
  from p c i show ?thesis by blast
qed

lemma trained_new: "train_ensemble_model (constant_sklearn c) (new_predictor v) =
  \<lparr>ProductionEnsemblePredictor.model_version = v,
   models = [(''random_forest'', \<lambda>X. c), (''gradient_boosting'', \<lambda>X. c), (''ada_boost'', \<lambda>X. c)],
   ensemble_model = Some (\<lambda>X. c), feature_scaler = Some (\<lambda>X. X),
   feature_importance = [], is_trained = True, feature_columns = training_columns,
   model_performance = []\<rparr>"
  by (simp add: train_ensemble_model_def constant_sklearn_def new_predictor_def base_models_def)

lemma is_trained_new: "is_trained (new_predictor v) = False"
  by (simp add: new_predictor_def)

lemma ensure_trained_new:
  "ensure_trained (constant_sklearn c) (new_predictor v) =
     train_ensemble_model (constant_sklearn c) (new_predictor v)"
  by (simp add: ensure_trained_def is_trained_new)

lemma np_std_const3: "np_std [c, c, c] = 0"
  by (simp add: np_std_def np_mean_def)

lemma default_risk_score:
  "map_option risk_score
     (fst (predict_startup_success (constant_sklearn (1 / 2)) [] (new_predictor ''2.0.0'') [])) =
   Some 3800"
  by (simp add: predict_startup_success_def ensure_trained_new trained_new np_std_const3
       extract_features_from_data_def get_def Let_def score_defs categorize_def)

section \<open>Properties of the pipeline\<close>

lemma map_of_update_all:
  "map_of (update_all other d) k =
     (case map_of (rev other) k of Some v \<Rightarrow> Some v | None \<Rightarrow> map_of d k)"
  unfolding update_all_def
proof (induction other arbitrary: d)
  case Nil
  then show ?case by simp
next
  case (Cons a other)
  obtain k0 v0 where a: "a = (k0, v0)" by (cases a)
  show ?case
    by (auto simp: a Cons.IH update_conv' map_add_def split: option.splits)
qed

lemma keys_update_all: "fst ` set (update_all other d) = fst ` set d \<union> fst ` set other"
  unfolding update_all_def
proof (induction other arbitrary: d)
  case Nil
  then show ?case by simp
next
  case (Cons a other)
  obtain k0 v0 where a: "a = (k0, v0)" by (cases a)
  show ?case
    by (auto simp: a Cons.IH dom_update)
qed

lemma distinct_update_all:
  "distinct (map fst d) \<Longrightarrow> distinct (map fst (update_all other d))"
  unfolding update_all_def
proof (induction other arbitrary: d)
  case Nil
  then show ?case by simp
next
  case (Cons a other)
  obtain k0 v0 where a: "a = (k0, v0)" by (cases a)
  from Cons.prems have "distinct (map fst (AList.update k0 v0 d))" by (rule distinct_update)
  from Cons.IH[OF this] show ?case by (simp add: a)
qed

lemma map_of_rev_distinct: "distinct (map fst xs) \<Longrightarrow> map_of (rev xs) k = map_of xs k"
proof (induction xs)
  case Nil
  then show ?case by simp
next
  case (Cons a xs)
  obtain k0 v0 where a: "a = (k0, v0)" by (cases a)
  from Cons.prems a have n: "k0 \<notin> fst ` set xs" and d: "distinct (map fst xs)" by auto
  from n have "map_of xs k0 = None" by (simp add: map_of_eq_None_iff)
  with Cons.IH[OF d] show ?case
    by (auto simp: a map_add_def split: option.splits)
qed

lemma update_all_lookup:
  "distinct (map fst other) \<Longrightarrow> map_of other k = Some v \<Longrightarrow> map_of (update_all other d) k = Some v"
  by (simp add: map_of_update_all map_of_rev_distinct)

lemma convert_distinct: "distinct (map fst (convert_pdf_to_ml_features pd))"
  unfolding convert_pdf_to_ml_features_def by (rule distinct_update_all) simp

lemma pdf_features_distinct: "distinct (map fst (snd (extract_features_from_pdf lib path)))"
  by (simp add: extract_features_from_pdf_def convert_distinct split: outcome.splits)


lemma deref_update_ref: "deref (update_ref r other s) r = update_all other (deref s r)"
  by (cases r) simp_all

lemma StartupData_description:
  "StartupData [(''company_name'', a), (''industry'', b), (''description'', c)] = None"
  by (simp add: StartupData_def StartupData_required_def StartupData_optional_def)

lemma combine_no_agent:
  "combine_analysis_results p dat None =
     Some ((model_confidence p + (case dat of None \<Rightarrow> 0 | Some d \<Rightarrow> extraction_confidence d))
             / (case dat of None \<Rightarrow> 1 | Some d \<Rightarrow> 2),
           case dat of None \<Rightarrow> 5 / 10 | Some d \<Rightarrow> completeness_score d)"
  by (cases dat) (simp_all add: combine_analysis_results_def)

lemma analyze_returns:
  "\<exists>r m self'. analyze_startup w self inp = (Some r, m, self')
     \<and> ProductionAnalysisResult.company_name r = ProductionAnalysisInput.company_name inp"
  by (simp add: analyze_startup_def StartupData_description combine_no_agent Let_def
           split: prod.splits)

lemma missing_file:
  assumes "plumber lib p = Raised" "pypdf lib p = Raised"
  shows "extract_features_from_pdf lib p =
     (empty_data, [(''product_readiness_score'', Num (4 / 10)),
                   (''extraction_confidence'', Num 0), (''data_completeness'', Num 0)])"
  using assms
  by (simp add: extract_features_from_pdf_def extract_financial_data_def extract_text_from_pdf_def
        convert_pdf_to_ml_features_def empty_data_def update_all_def)

lemma collect_pdf:
  assumes "use_pdf_extraction inp" "pdf_path inp = Some p" "p \<noteq> []"
  shows "\<exists>r s. collect_features w inp =
           (r, s, Some (fst (extract_features_from_pdf (pdf_lib w) p)), [''PDF_EXTRACTION''])
         \<and> deref s r =
             update_all (snd (extract_features_from_pdf (pdf_lib w) p))
               (update_all (identity_entries inp)
                  (case manual_data inp of None \<Rightarrow> [] | Some d \<Rightarrow> d))"
  using assms
  by (cases "manual_data inp")
     (auto simp: collect_features_def or_else_def Let_def deref_update_ref identity_entries_def
           split: prod.splits)

lemma pdf_overrides:
  assumes "use_pdf_extraction inp" "pdf_path inp = Some p" "p \<noteq> []"
    and "map_of (snd (extract_features_from_pdf (pdf_lib w) p)) k = Some v"
    and "collect_features w inp = (ml_features, s, dat, comps)"
  shows "map_of (deref s ml_features) k = Some v"
proof -
  from collect_pdf[OF assms(1-3), of w] assms(5)
  have "deref s ml_features =
             update_all (snd (extract_features_from_pdf (pdf_lib w) p))
               (update_all (identity_entries inp)
                  (case manual_data inp of None \<Rightarrow> [] | Some d \<Rightarrow> d))"
    by auto
  with assms(4) show ?thesis
    by (simp add: update_all_lookup pdf_features_distinct)
qed

lemma missing_file_result:
  assumes "plumber (pdf_lib w) p = Raised" "pypdf (pdf_lib w) p = Raised"
    and "use_pdf_extraction inp" "pdf_path inp = Some p" "p \<noteq> []"
  shows "\<exists>r m self'. analyze_startup w self inp = (Some r, m, self')
     \<and> ''PDF_EXTRACTION'' \<in> set (components_used r)
     \<and> pdf_data r = Some empty_data
     \<and> overall_confidence r = (model_confidence (ml_prediction r) + 0) / 2"
proof -
  from missing_file[OF assms(1,2)]
  have "fst (extract_features_from_pdf (pdf_lib w) p) = empty_data" by simp
  with collect_pdf[OF assms(3-5), of w]
  obtain r s where c: "collect_features w inp = (r, s, Some empty_data, [''PDF_EXTRACTION''])"
    by auto
  have e: "extraction_confidence empty_data = 0" by (simp add: empty_data_def)
  show ?thesis
    by (simp add: analyze_startup_def StartupData_description combine_no_agent Let_def c e
             split: prod.splits)
qed

lemma collect_manual:
  assumes "manual_data inp = Some d" "d \<noteq> []"
  shows "\<exists>s dat comps. collect_features w inp = (Manual, s, dat, comps)
     \<and> manual s =
         update_all (if use_pdf_extraction inp \<and> or_else (pdf_path inp) [] \<noteq> []
                     then snd (extract_features_from_pdf (pdf_lib w) (or_else (pdf_path inp) []))
                     else [])
           (update_all (identity_entries inp) d)"
  using assms
  by (auto simp: collect_features_def Let_def update_all_def identity_entries_def split: prod.splits)

lemma manual_mutated:
  assumes "manual_data inp = Some d" "d \<noteq> []"
  shows "\<exists>r m self'. analyze_startup w self inp = (r, Some m, self')
     \<and> fst ` set d \<subseteq> fst ` set m
     \<and> {''company_name'', ''industry'', ''description''} \<subseteq> fst ` set m
     \<and> (use_pdf_extraction inp \<and> or_else (pdf_path inp) [] \<noteq> [] \<longrightarrow>
          fst ` set (snd (extract_features_from_pdf (pdf_lib w) (or_else (pdf_path inp) [])))
            \<subseteq> fst ` set m)"
proof -
  from collect_manual[OF assms, of w] obtain s dat comps where
    c: "collect_features w inp = (Manual, s, dat, comps)"
    and m: "manual s =
         update_all (if use_pdf_extraction inp \<and> or_else (pdf_path inp) [] \<noteq> []
                     then snd (extract_features_from_pdf (pdf_lib w) (or_else (pdf_path inp) []))
                     else [])
           (update_all (identity_entries inp) d)"
    by blast
  have a: "\<exists>r self'. analyze_startup w self inp = (r, Some (manual s), self')"
    by (simp add: analyze_startup_def StartupData_description combine_no_agent Let_def c assms
             split: prod.splits)
  have k: "fst ` set d \<subseteq> fst ` set (manual s)"
    "{''company_name'', ''industry'', ''description''} \<subseteq> fst ` set (manual s)"
    "use_pdf_extraction inp \<and> or_else (pdf_path inp) [] \<noteq> [] \<longrightarrow>
          fst ` set (snd (extract_features_from_pdf (pdf_lib w) (or_else (pdf_path inp) [])))
            \<subseteq> fst ` set (manual s)"
    unfolding m keys_update_all by (auto simp: identity_entries_def)
  from a k show ?thesis by blast
qed

lemma empty_manual_untouched:
  assumes "manual_data inp = Some []"
  shows "fst (snd (analyze_startup w self inp)) = Some []"
proof -
  have "\<exists>s dat comps. collect_features w inp = (Local, s, dat, comps) \<and> manual s = []"
    using assms
    by (cases "use_pdf_extraction inp \<and> or_else (pdf_path inp) [] \<noteq> []")
       (auto simp: collect_features_def Let_def split: prod.splits)
  then obtain s dat comps where
    c: "collect_features w inp = (Local, s, dat, comps)" and m: "manual s = []"
    by blast
  show ?thesis
    by (simp add: analyze_startup_def StartupData_description combine_no_agent Let_def c m assms
             split: prod.splits)
qed

section \<open>The claims\<close>

text \<open>
  Claim C7.  For every input string, \<open>parse_financial_value\<close> computes what the
  specification describes: the text without \<open>$\<close>, commas and surrounding whitespace
  is scaled by 1e3/1e6/1e9 when it ends in K/M/B (in either case) and its prefix is a
  float, is a plain float otherwise, and every failure is \<open>None\<close>; the function is
  total, so no input raises.  In particular \<open>$2.5M\<close> is 2500000, \<open>1,200\<close> is 1200,
  and the empty string and \<open>abc\<close> give \<open>None\<close>.
\<close>

theorem C7_parse_financial_value:
  "(\<forall>s. parse_financial_value s = parse_value_spec s)
   \<and> parse_financial_value ''$2.5M'' = Some (Fin 2500000)
   \<and> parse_financial_value ''1,200'' = Some (Fin 1200)
   \<and> parse_financial_value '''' = None
   \<and> parse_financial_value ''abc'' = None"
proof -
  have a: "\<forall>s. parse_financial_value s = parse_value_spec s"
    by (simp add: parse_refines)
  have b: "parse_financial_value ''$2.5M'' = Some (Fin 2500000)"
    by (simp add: parser_eval)
  have c: "parse_financial_value ''1,200'' = Some (Fin 1200)"
    by (simp add: parser_eval)
  have d: "parse_financial_value '''' = None"
    by (simp add: parse_financial_value_def)
  have e: "parse_financial_value ''abc'' = None"
    by (simp add: parser_eval)
  from a b c d e show ?thesis by blast
qed

text \<open>
  Claim C6, as amended.  For every text and metric type, the entry of
  \<open>extract_financial_metrics\<close> is the median of the values of all regex matches,
  over all patterns of the metric, that the numeric parser parsed to a non-zero
  value, and the key is present exactly when there is such a match; the median
  depends only on the multiset of these values, not on their order; and for the
  text made of the three revenue mentions, one per line and in each of the six
  orders, the revenue entry is 2000000.
\<close>

theorem C6_median_of_nonzero_matches:
  "(\<forall>text k. map_of (extract_financial_metrics text) k =
       (if nonzero_values (patterns_of k) text = [] then None
        else Some (np_median (nonzero_values (patterns_of k) text))))
   \<and> (\<forall>vs ws. mset vs = mset ws \<longrightarrow> np_median vs = np_median ws)
   \<and> map (\<lambda>ms. map_of (extract_financial_metrics (join_lines ms)) ''revenue'')
         [[''revenue: $1M'', ''revenue: $3M'', ''revenue: $2M''],
          [''revenue: $1M'', ''revenue: $2M'', ''revenue: $3M''],
          [''revenue: $3M'', ''revenue: $1M'', ''revenue: $2M''],
          [''revenue: $3M'', ''revenue: $2M'', ''revenue: $1M''],
          [''revenue: $2M'', ''revenue: $1M'', ''revenue: $3M''],
          [''revenue: $2M'', ''revenue: $3M'', ''revenue: $1M'']]
       = replicate 6 (Some (Fin 2000000))"
proof -
  have a: "map_of (extract_financial_metrics t) k =
       (if nonzero_values (patterns_of k) t = [] then None
        else Some (np_median (nonzero_values (patterns_of k) t)))" for t k
    by (rule extract_entry)
  have b: "\<forall>vs ws. mset vs = mset ws \<longrightarrow> np_median vs = np_median ws"
    using np_median_mset by blast
  have c: "map (\<lambda>ms. map_of (extract_financial_metrics (join_lines ms)) ''revenue'')
         [[''revenue: $1M'', ''revenue: $3M'', ''revenue: $2M''],
          [''revenue: $1M'', ''revenue: $2M'', ''revenue: $3M''],
          [''revenue: $3M'', ''revenue: $1M'', ''revenue: $2M''],
          [''revenue: $3M'', ''revenue: $2M'', ''revenue: $1M''],
          [''revenue: $2M'', ''revenue: $1M'', ''revenue: $3M''],
          [''revenue: $2M'', ''revenue: $3M'', ''revenue: $1M'']]
       = replicate 6 (Some (Fin 2000000))"
    unfolding list.map revenue_1 revenue_2 revenue_3 revenue_4 revenue_5 revenue_6
    by (simp add: numeral_eq_Suc)
  from a b c show ?thesis by blast
qed

theorem C6_witness:
  "mset [Fin 1, Fin 3, Fin 2] = mset [Fin 3, Fin 2, Fin 1]
   \<and> np_median [Fin 1, Fin 3, Fin 2] = np_median [Fin 3, Fin 2, Fin 1]
   \<and> np_median [Fin 1, Fin 3, Fin 2] = Fin 2"
proof -
  have m: "mset [Fin 1, Fin 3, Fin 2] = mset [Fin 3, Fin 2, Fin (1::real)]"
    by (simp add: add.commute add.left_commute)
  from C6_median_of_nonzero_matches have
    "mset [Fin 1, Fin 3, Fin 2] = mset [Fin 3, Fin 2, Fin 1]
       \<longrightarrow> np_median [Fin 1, Fin 3, Fin 2] = np_median [Fin 3, Fin 2, Fin 1]"
    by blast
  with m show ?thesis by (simp add: median_eval)
qed

text \<open>
  The claim as stated fails twice.  A match that parses to zero is not part of the
  median: for \<open>revenue: $0, sales: $2M\<close> the matches parse to 0 and 2000000, whose
  median is 1000000, and the entry is 2000000.  And the entry depends on the order of
  the mentions, because a mention followed by the word \<open>revenue\<close> is matched by two
  patterns: the same four mentions give 2 in ascending and 7 in descending order.
\<close>

theorem C6_counterexample:
  "parsed_values (patterns_of ''revenue'') ''revenue: $0, sales: $2M'' = [Fin 0, Fin 2000000]
   \<and> np_median [Fin 0, Fin 2000000] = Fin 1000000
   \<and> map_of (extract_financial_metrics ''revenue: $0, sales: $2M'') ''revenue'' = Some (Fin 2000000)
   \<and> map_of (extract_financial_metrics ''revenue 1 revenue 2 revenue 7 revenue 9'') ''revenue''
       = Some (Fin 2)
   \<and> map_of (extract_financial_metrics ''revenue 9 revenue 7 revenue 2 revenue 1'') ''revenue''
       = Some (Fin 7)"
proof -
  have a: "parsed_values (patterns_of ''revenue'') ''revenue: $0, sales: $2M'' = [Fin 0, Fin 2000000]"
    unfolding values_eval matches_zero_sales by (simp add: parse_examples)
  have b: "np_median [Fin 0, Fin 2000000] = Fin 1000000"
    by (simp add: median_eval)
  have c: "map_of (extract_financial_metrics ''revenue: $0, sales: $2M'') ''revenue'' = Some (Fin 2000000)"
    unfolding values_eval matches_zero_sales by (simp add: parse_examples median_eval)
  have d: "map_of (extract_financial_metrics ''revenue 1 revenue 2 revenue 7 revenue 9'') ''revenue''
       = Some (Fin 2)"
    unfolding values_eval matches_ascending by (simp add: parse_examples median_eval)
  have e: "map_of (extract_financial_metrics ''revenue 9 revenue 7 revenue 2 revenue 1'') ''revenue''
       = Some (Fin 7)"
    unfolding values_eval matches_descending by (simp add: parse_examples median_eval)
  from a b c d e show ?thesis by blast
qed

text \<open>
  Claim C9.  A match whose parsed value is zero is skipped by the loop exactly as an
  unparseable one is, so it adds nothing to the values of the median; a metric all of
  whose parsed matches are zero has no entry; and \<open>revenue: $0\<close>, whose only match
  parses to zero, yields no revenue entry.
\<close>

theorem C9_zero_match_dropped:
  "(\<forall>m ms vs. parse_financial_value m = Some (Fin 0) \<or> parse_financial_value m = None
       \<longrightarrow> match_loop (m # ms) vs = match_loop ms vs)
   \<and> (\<forall>text k. (\<forall>v \<in> set (parsed_values (patterns_of k) text). v = Fin 0)
       \<longrightarrow> map_of (extract_financial_metrics text) k = None)
   \<and> parsed_values (patterns_of ''revenue'') ''revenue: $0'' = [Fin 0]
   \<and> map_of (extract_financial_metrics ''revenue: $0'') ''revenue'' = None"
proof -
  have a: "\<forall>m ms vs. parse_financial_value m = Some (Fin 0) \<or> parse_financial_value m = None
       \<longrightarrow> match_loop (m # ms) vs = match_loop ms vs"
    by auto
  have b: "map_of (extract_financial_metrics t) k = None"
    if h: "\<forall>v \<in> set (parsed_values (patterns_of k) t). v = Fin 0" for t k
  proof -
    from h have "nonzero_values (patterns_of k) t = []"
      by (auto simp: nonzero_values_def filter_empty_conv)
    then show ?thesis
      by (simp add: extract_entry)
  qed
  have c: "parsed_values (patterns_of ''revenue'') ''revenue: $0'' = [Fin 0]"
    unfolding values_eval matches_zero by (simp add: parse_examples)
  have d: "map_of (extract_financial_metrics ''revenue: $0'') ''revenue'' = None"
    unfolding values_eval matches_zero by (simp add: parse_examples)
  from a b c d show ?thesis by blast
qed

theorem C9_witness:
  "parse_financial_value ''$0'' = Some (Fin 0)
   \<and> match_loop [''$0'', ''$2M''] [] = match_loop [''$2M''] []
   \<and> parsed_values (patterns_of ''revenue'') ''revenue: $0'' = [Fin 0]
   \<and> map_of (extract_financial_metrics ''revenue: $0'') ''revenue'' = None"
proof -
  have p: "parse_financial_value ''$0'' = Some (Fin 0)"
    by (simp add: parse_examples)
  from C9_zero_match_dropped p have m: "match_loop [''$0'', ''$2M''] [] = match_loop [''$2M''] []"
    by blast
  from C9_zero_match_dropped
  have v: "parsed_values (patterns_of ''revenue'') ''revenue: $0'' = [Fin 0]"
    by blast
  then have q: "\<forall>v \<in> set (parsed_values (patterns_of ''revenue'') ''revenue: $0''). v = Fin 0"
    by simp
  with C9_zero_match_dropped
  have "map_of (extract_financial_metrics ''revenue: $0'') ''revenue'' = None"
    by blast
  with p m v show ?thesis by blast
qed

text \<open>
  Claim C1 fails on the code: \<open>_calculate_risk_score\<close> multiplies the weighted sum of
  the five risk features, which is already on the scale 0 to 100, by 100 once more.
  For the empty feature dictionary, where every feature has its default, the risk
  score is 3800, as a value of the function and as a field of the prediction.
\<close>

theorem C1_risk_score_of_defaults:
  "Option.bind (extract_features_from_data []) calculate_risk_score = Some 3800
   \<and> map_option risk_score
        (fst (predict_startup_success (constant_sklearn (1 / 2)) [] (new_predictor ''2.0.0'') []))
       = Some 3800"
proof -
  have a: "Option.bind (extract_features_from_data []) calculate_risk_score = Some 3800"
    by (simp add: extract_features_from_data_def get_def calculate_risk_score_def Let_def)
  from a default_risk_score show ?thesis by blast
qed

text \<open>
  Claim C5.  For a predictor whose ensemble returns probabilities (as scikit-learn's
  \<open>predict_proba\<close> does) and a feature dictionary whose numeric entries are numbers,
  \<open>predict_startup_success\<close> returns a result in which the confidence interval
  encloses the probability and lies in the unit interval, and the category and the
  recommendation follow the thresholds 0.70 and 0.40.
\<close>

theorem C5_interval_and_thresholds:
  assumes "numeric_data d"
    and "ensemble_model (ensure_trained sk self) = Some e"
    and "feature_scaler (ensure_trained sk self) = Some sc"
    and "\<forall>X. 0 \<le> e X \<and> e X \<le> 1"
  shows "\<exists>r. predict_startup_success sk now self d = (Some r, ensure_trained sk self)
     \<and> 0 \<le> fst (confidence_interval r)
     \<and> fst (confidence_interval r) \<le> success_probability r
     \<and> success_probability r \<le> snd (confidence_interval r)
     \<and> snd (confidence_interval r) \<le> 1
     \<and> (success_category r, investment_recommendation r) =
         (if success_probability r \<ge> 7 / 10 then (''High Potential'', ''INVEST'')
          else if success_probability r \<ge> 4 / 10 then (''Medium Potential'', ''WATCH'')
          else (''Low Potential'', ''PASS''))"
  using assms by (intro predict_numeric) simp_all

theorem C5_witness:
  "numeric_data [(''revenue'', Num 1000000), (''market_size_billions'', Num 5), (''team_size'', Num 10)]
   \<and> (\<exists>r. fst (predict_startup_success (constant_sklearn (85 / 100)) [] (new_predictor ''2.0.0'')
                  [(''revenue'', Num 1000000), (''market_size_billions'', Num 5),
                   (''team_size'', Num 10)]) = Some r
        \<and> 0 \<le> fst (confidence_interval r)
        \<and> fst (confidence_interval r) \<le> success_probability r
        \<and> success_probability r \<le> snd (confidence_interval r)
        \<and> snd (confidence_interval r) \<le> 1
        \<and> (success_category r, investment_recommendation r) =
            (if success_probability r \<ge> 7 / 10 then (''High Potential'', ''INVEST'')
             else if success_probability r \<ge> 4 / 10 then (''Medium Potential'', ''WATCH'')
             else (''Low Potential'', ''PASS'')))"
proof -
  let ?d = "[(''revenue'', Num 1000000), (''market_size_billions'', Num 5), (''team_size'', Num 10)]"
  let ?q = "ensure_trained (constant_sklearn (85 / 100)) (new_predictor ''2.0.0'')"
  have n: "numeric_data ?d"
    by (simp add: numeric_data_def numeric_keys_def)
  have e: "ensemble_model ?q = Some (\<lambda>X. 85 / 100)"
    by (simp add: ensure_trained_new trained_new)
  have s: "feature_scaler ?q = Some (\<lambda>X. X)"
    by (simp add: ensure_trained_new trained_new)
  have r: "\<forall>X::real list. (0::real) \<le> 85 / 100 \<and> (85 / 100 :: real) \<le> 1"
    by simp
  from C5_interval_and_thresholds[OF n e s r, of "[]"] n show ?thesis
    by fastforce
qed

text \<open>
  Claim C2 fails on the code: step 1 of \<open>analyze_startup\<close> updates the feature
  dictionary with the PDF-derived features after the manual data, so for a key that
  both supply, the dictionary handed to the prediction holds the PDF value.  The
  dictionary that \<open>collect_features\<close> leaves behind \<open>ml_features\<close> is the one that
  \<open>analyze_startup\<close> passes to \<open>run_ml_prediction\<close>.
\<close>

theorem C2_pdf_value_replaces_manual_value:
  assumes "manual_data inp = Some d" and "map_of d k = Some u"
    and "use_pdf_extraction inp" and "pdf_path inp = Some p" and "p \<noteq> []"
    and "map_of (snd (extract_features_from_pdf (pdf_lib w) p)) k = Some v"
    and "collect_features w inp = (ml_features, s, dat, comps)"
  shows "map_of (deref s ml_features) k = Some v"
  using assms(3-7) by (rule pdf_overrides)

theorem C2_witness:
  "map_of [(''revenue'', Num 500000)] ''revenue'' = Some (Num 500000)
   \<and> map_of (snd (extract_features_from_pdf (pdf_lib (a_world revenue_deck)) ''deck.pdf''))
        ''revenue'' = Some (Num 1000000)
   \<and> (case collect_features (a_world revenue_deck)
              (analysis_input ''Acme'' (Some ''deck.pdf'') (Some [(''revenue'', Num 500000)])) of
         (ml_features, s, dat, comps) \<Rightarrow>
           map_of (deref s ml_features) ''revenue'' = Some (Num 1000000))"
proof -
  let ?inp = "analysis_input ''Acme'' (Some ''deck.pdf'') (Some [(''revenue'', Num 500000)])"
  let ?w = "a_world revenue_deck"
  have f: "map_of (snd (extract_features_from_pdf (pdf_lib ?w) ''deck.pdf'')) ''revenue''
             = Some (Num 1000000)"
    by (simp add: a_world_def revenue_deck_def extract_features_from_pdf_def
          extract_financial_data_def extract_text_from_pdf_def convert_pdf_to_ml_features_def
          empty_data_def update_all_def)
  obtain ml_features s dat comps where
    c: "collect_features ?w ?inp = (ml_features, s, dat, comps)"
    by (cases "collect_features ?w ?inp") auto
  have m: "manual_data ?inp = Some [(''revenue'', Num 500000)]"
    and u: "use_pdf_extraction ?inp"
    and pp: "pdf_path ?inp = Some ''deck.pdf''"
    by (simp_all add: analysis_input_def)
  have l: "map_of [(''revenue'', Num 500000)] ''revenue'' = Some (Num 500000)"
    by simp
  have ne: "''deck.pdf'' \<noteq> []"
    by simp
  have "map_of (deref s ml_features) ''revenue'' = Some (Num 1000000)"
    by (rule C2_pdf_value_replaces_manual_value[OF m l u pp ne f c])
  with f c l show ?thesis by simp
qed

text \<open>
  Claim C3 fails on the code: when both readers raise for the path, the extraction
  step returns the empty data without raising, so \<open>analyze_startup\<close> returns a
  complete result whose \<open>pdf_data\<close> is the empty structure, but it records
  \<open>PDF_EXTRACTION\<close> in \<open>components_used\<close> and averages the model confidence with the
  extraction confidence 0.
\<close>

theorem C3_missing_pdf_counted_as_extracted:
  assumes "plumber (pdf_lib w) p = Raised" and "pypdf (pdf_lib w) p = Raised"
    and "use_pdf_extraction inp" and "pdf_path inp = Some p" and "p \<noteq> []"
  shows "\<exists>r m self'. analyze_startup w self inp = (Some r, m, self')
     \<and> ''PDF_EXTRACTION'' \<in> set (components_used r)
     \<and> pdf_data r = Some empty_data
     \<and> overall_confidence r = (model_confidence (ml_prediction r) + 0) / 2"
  using assms by (rule missing_file_result)

theorem C3_witness:
  "\<exists>r m self'.
      analyze_startup (a_world no_file) (new_pipeline None)
        (analysis_input ''Acme'' (Some ''/does/not/exist'') None) = (Some r, m, self')
      \<and> ''PDF_EXTRACTION'' \<in> set (components_used r)
      \<and> pdf_data r = Some empty_data
      \<and> overall_confidence r = (model_confidence (ml_prediction r) + 0) / 2"
  by (rule C3_missing_pdf_counted_as_extracted[of _ "''/does/not/exist''"])
     (simp_all add: a_world_def no_file_def analysis_input_def)

text \<open>
  Claim C4, as amended.  \<open>analyze_startup\<close> does not validate \<open>company_name\<close>: for
  every input, also one whose \<open>company_name\<close> is empty, it returns a result that
  carries the \<open>company_name\<close> of the input.
\<close>

theorem C4_no_validation_of_company_name:
  "\<exists>r m self'. analyze_startup w self inp = (Some r, m, self')
     \<and> ProductionAnalysisResult.company_name r = ProductionAnalysisInput.company_name inp"
  by (rule analyze_returns)

text \<open>The claim as stated fails for the empty name: the request is not refused.\<close>

theorem C4_counterexample:
  "\<exists>r m self'. analyze_startup (a_world no_file) (new_pipeline None) (analysis_input '''' None None)
                  = (Some r, m, self')
     \<and> ProductionAnalysisResult.company_name r = ''''"
proof -
  have "ProductionAnalysisInput.company_name (analysis_input '''' None None) = ''''"
    by (simp add: analysis_input_def)
  with analyze_returns[of "a_world no_file" "new_pipeline None" "analysis_input '''' None None"]
  show ?thesis by simp
qed

text \<open>
  Claim C10, as amended.  When \<open>manual_data\<close> is a dictionary that is not empty,
  \<open>analyze_startup\<close> writes into that dictionary: after the call it holds its old keys,
  the keys \<open>company_name\<close>, \<open>industry\<close> and \<open>description\<close>, and, when the PDF step
  ran, every key of the PDF-derived features.
\<close>

theorem C10_manual_data_written:
  assumes "manual_data inp = Some d" and "d \<noteq> []"
  shows "\<exists>r m self'. analyze_startup w self inp = (r, Some m, self')
     \<and> fst ` set d \<subseteq> fst ` set m
     \<and> {''company_name'', ''industry'', ''description''} \<subseteq> fst ` set m
     \<and> (use_pdf_extraction inp \<and> or_else (pdf_path inp) [] \<noteq> [] \<longrightarrow>
          fst ` set (snd (extract_features_from_pdf (pdf_lib w) (or_else (pdf_path inp) [])))
            \<subseteq> fst ` set m)"
  using assms by (rule manual_mutated)

theorem C10_witness:
  "\<exists>r m self'.
      analyze_startup (a_world revenue_deck) (new_pipeline None)
        (analysis_input ''Acme'' (Some ''deck.pdf'') (Some [(''revenue'', Num 500000)]))
        = (r, Some m, self')
      \<and> {''revenue'', ''company_name'', ''industry'', ''description''} \<subseteq> fst ` set m
      \<and> fst ` set (snd (extract_features_from_pdf revenue_deck ''deck.pdf'')) \<subseteq> fst ` set m"
proof -
  let ?inp = "analysis_input ''Acme'' (Some ''deck.pdf'') (Some [(''revenue'', Num 500000)])"
  have a: "manual_data ?inp = Some [(''revenue'', Num 500000)]"
    and b: "[(''revenue'', Num 500000)] \<noteq> []"
    and c: "use_pdf_extraction ?inp \<and> or_else (pdf_path ?inp) [] \<noteq> []"
    and p: "or_else (pdf_path ?inp) [] = ''deck.pdf''"
    and l: "pdf_lib (a_world revenue_deck) = revenue_deck"
    by (simp_all add: analysis_input_def or_else_def a_world_def)
  from C10_manual_data_written[OF a b, of "a_world revenue_deck" "new_pipeline None"] c
  show ?thesis
    unfolding p l by fastforce
qed

text \<open>
  The claim as stated fails for an empty dictionary: \<open>manual_data or {}\<close> then is a
  new dictionary, and the caller's one stays empty.
\<close>

theorem C10_counterexample:
  "fst (snd (analyze_startup (a_world no_file) (new_pipeline None)
               (analysis_input ''Acme'' None (Some [])))) = Some []"
  by (rule empty_manual_untouched) (simp add: analysis_input_def)

end
